theory Spec2Isabelle
  imports Complex_Main "HOL-Library.Product_Lexorder" "HOL-Library.List_Lexorder"
begin

chapter \<open>The model\<close>

text \<open>
  The dashboard is one Python script that Streamlit runs from top to bottom on every
  interaction. The model follows it: Python strings and the pandas operations the script
  calls are functions on lists; a table is a header and a list of rows; the script is a
  function from what it reads (files, the widgets' values) to the session it leaves behind
  (the tables it holds, the names bound to them, the widgets it rendered, and whether it
  ran to its end).
\<close>

section \<open>Python strings\<close>

text \<open>
  A Python \<open>str\<close> is a sequence of Unicode code points, and \<open>len\<close> counts code
  points. The ellipsis that \<open>shorten\<close> appends is U+2026, which is one code point but
  no 8-bit character, so a string is modelled as the list of its code points. String
  literals of the source are ASCII and are written through \<open>lit\<close>.
\<close>

type_synonym pystr = "nat list"

definition lit :: "string \<Rightarrow> pystr" where
  "lit s = map of_char s"

text \<open>
  \<open>sub in s\<close> on strings: \<open>sub\<close> occurs in \<open>s\<close> as a contiguous run.
\<close>

fun contains :: "pystr \<Rightarrow> pystr \<Rightarrow> bool" where
  "contains sub [] = (sub = [])"
| "contains sub (x # xs) = (take (length sub) (x # xs) = sub \<or> contains sub xs)"

text \<open>
  \<open>xs[:k]\<close>: for \<open>k \<ge> 0\<close> the first \<open>k\<close> items (all of them when there are
  fewer); for \<open>k < 0\<close> everything but the last \<open>-k\<close> items.
\<close>

definition slice_upto :: "'a list \<Rightarrow> int \<Rightarrow> 'a list" where
  "slice_upto xs k =
     (if k < 0 then take (nat (int (length xs) + k)) xs else take (nat k) xs)"

text \<open>
  The code points for which \<open>str.isspace\<close> holds; \<open>str.rstrip()\<close> without an
  argument removes the longest suffix made of them.
\<close>

definition isspace :: "nat \<Rightarrow> bool" where
  "isspace c \<longleftrightarrow>
     (9 \<le> c \<and> c \<le> 13) \<or> (28 \<le> c \<and> c \<le> 32) \<or> c = 133 \<or> c = 160 \<or> c = 5760 \<or>
     (8192 \<le> c \<and> c \<le> 8202) \<or> c = 8232 \<or> c = 8233 \<or> c = 8239 \<or> c = 8287 \<or>
     c = 12288"

definition rstrip :: "pystr \<Rightarrow> pystr" where
  "rstrip s = rev (dropWhile isspace (rev s))"

definition ellipsis :: nat where
  "ellipsis = 8230"

section \<open>The label formatter\<close>

text \<open>
  Lines 189-190:
  \<^verbatim>\<open>def shorten(name, n=28):
    return name if len(name) <= n else name[:n-1].rstrip() + '...'\<close>
  (the appended literal is the single character U+2026). \<open>n\<close> is a Python integer.
\<close>

definition shorten :: "pystr \<Rightarrow> int \<Rightarrow> pystr" where
  "shorten name n =
     (if int (length name) \<le> n then name
      else rstrip (slice_upto name (n - 1)) @ [ellipsis])"

text \<open>
  The contract of the formatter in the words of the specification (section 4.2), for a
  maximum display length \<open>n\<close>: unchanged if within length, otherwise the first
  \<open>n - 1\<close> characters, trimmed of trailing whitespace, followed by one ellipsis.
\<close>

definition shorten_spec :: "pystr \<Rightarrow> nat \<Rightarrow> pystr" where
  "shorten_spec s n =
     (if length s \<le> n then s else rstrip (take (n - 1) s) @ [ellipsis])"

section \<open>Tables\<close>

text \<open>
  A cell of a table read by \<open>pd.read_csv\<close> is a number, a string, or missing (an empty
  field, which pandas reads as NaN). The numbers in cells are finite and modelled as reals;
  the only arithmetic the script does on table cells other than counting goes through the
  subtraction that is a parameter of the temperature stage. A row maps a column name to its cell; a table (\<open>DataFrame\<close>) is its
  header, in order, and its rows, in order.
\<close>

datatype cell = NaN | Num real | Str pystr

type_synonym row = "pystr \<Rightarrow> cell"

record dataframe =
  columns :: "pystr list"
  rows :: "row list"

text \<open>The exceptions the script can meet.\<close>

datatype exc = KeyError pystr | TypeError | FileNotFoundError | OtherError

text \<open>\<open>df[c]\<close> as the list of the column's cells; a missing column raises \<open>KeyError\<close>.\<close>

definition column :: "pystr \<Rightarrow> dataframe \<Rightarrow> cell list" where
  "column c df = map (\<lambda>r. r c) (rows df)"

definition getitem :: "dataframe \<Rightarrow> pystr \<Rightarrow> exc + cell list" where
  "getitem df c = (if c \<in> set (columns df) then Inr (column c df) else Inl (KeyError c))"

text \<open>
  \<open>df[c] = values\<close>, the values given row by row: an existing column is overwritten in
  place, a new one is appended to the header.
\<close>

definition setitem :: "dataframe \<Rightarrow> pystr \<Rightarrow> (row \<Rightarrow> cell) \<Rightarrow> dataframe" where
  "setitem df c f =
     \<lparr>columns = (if c \<in> set (columns df) then columns df else columns df @ [c]),
      rows = map (\<lambda>r. r(c := f r)) (rows df)\<rparr>"

text \<open>\<open>df.empty\<close>: no rows or no columns.\<close>

definition is_empty :: "dataframe \<Rightarrow> bool" where
  "is_empty df \<longleftrightarrow> rows df = [] \<or> columns df = []"

text \<open>\<open>Series.unique()\<close>: the distinct values in order of first appearance.\<close>

definition unique :: "'a list \<Rightarrow> 'a list" where
  "unique xs = rev (remdups (rev xs))"

text \<open>\<open>Series.count()\<close>: the number of cells that are not missing.\<close>

definition count :: "cell list \<Rightarrow> nat" where
  "count cs = length (filter (\<lambda>c. c \<noteq> NaN) cs)"

text \<open>
  Line 163, \<^verbatim>\<open>df.query('season == @season_filter')\<close>: comparing a column with a list
  selects the rows whose cell is one of the list's items. The result is a new table.
\<close>

definition query_season :: "dataframe \<Rightarrow> cell list \<Rightarrow> dataframe" where
  "query_season df season_filter =
     df\<lparr>rows := filter (\<lambda>r. r (lit ''season'') \<in> set season_filter) (rows df)\<rparr>"

text \<open>
  Lines 175-179, the station column: the first column whose name contains both
  \<open>start\<close> and \<open>station\<close>; failing that, the first whose name contains \<open>station\<close> or
  \<open>name\<close>; failing that, \<open>None\<close>.
\<close>

definition station_candidates :: "pystr list \<Rightarrow> pystr list" where
  "station_candidates cols =
     filter (\<lambda>c. (contains (lit ''start'') c \<and> contains (lit ''station'') c) \<or>
                 (contains (lit ''station'') c \<and> contains (lit ''start'') c)) cols"

definition station_col_df :: "pystr list \<Rightarrow> pystr option" where
  "station_col_df cols =
     (case station_candidates cols of
        c # _ \<Rightarrow> Some c
      | [] \<Rightarrow> find (\<lambda>c. contains (lit ''station'') c \<or> contains (lit ''name'') c) cols)"

text \<open>
  Line 185, \<^verbatim>\<open>df1.groupby(c, as_index=False).agg({'value': 'sum'})\<close>. With the
  defaults of \<open>groupby\<close> (\<open>sort=True\<close>, \<open>dropna=True\<close>) there is one group per
  distinct key that is not missing, the groups come in the order of their keys (numbers
  before strings, strings by code point), and rows whose key is missing belong to no
  group. The result has the key column and the summed column. The only column the script
  sums is \<open>value\<close>, which line 173 has set to 1 in every row; \<open>num_of\<close> reads a
  numeric cell, and in a sum a missing cell counts 0 (\<open>skipna\<close>).
\<close>

definition num_of :: "cell \<Rightarrow> real" where
  "num_of c = (case c of Num x \<Rightarrow> x | _ \<Rightarrow> 0)"

definition sum_cells :: "cell list \<Rightarrow> cell" where
  "sum_cells cs = Num (sum_list (map num_of cs))"

definition cell_key :: "cell \<Rightarrow> nat \<times> real \<times> pystr" where
  "cell_key c = (case c of Num x \<Rightarrow> (0, x, []) | Str s \<Rightarrow> (1, 0, s) | NaN \<Rightarrow> (2, 0, []))"

definition group_keys :: "pystr \<Rightarrow> dataframe \<Rightarrow> cell list" where
  "group_keys c df = sort_key cell_key (unique (filter (\<lambda>k. k \<noteq> NaN) (column c df)))"

definition groupby_sum :: "pystr \<Rightarrow> pystr \<Rightarrow> dataframe \<Rightarrow> dataframe" where
  "groupby_sum c v df =
     \<lparr>columns = [c, v],
      rows = map (\<lambda>k. (\<lambda>_. NaN)
                   (c := k,
                    v := sum_cells (column v (df\<lparr>rows := filter (\<lambda>r. r c = k) (rows df)\<rparr>))))
               (group_keys c df)\<rparr>"

text \<open>
  Line 186, \<^verbatim>\<open>nlargest(20, 'value')\<close>: the rows in descending order of the column,
  rows of equal value in their original order (\<open>keep='first'\<close>), rows with a missing
  value last, cut to the first \<open>n\<close>.
\<close>

definition nlargest :: "nat \<Rightarrow> pystr \<Rightarrow> dataframe \<Rightarrow> dataframe" where
  "nlargest n v df =
     df\<lparr>rows := take n (sort_key (\<lambda>r. - num_of (r v)) (filter (\<lambda>r. r v \<noteq> NaN) (rows df)) @
                        filter (\<lambda>r. r v = NaN) (rows df))\<rparr>"

text \<open>
  The tables of lines 173, 185 and 186 as expressions: the filtered copy with its count
  indicator, the station aggregates, and the twenty largest of them.
\<close>

definition with_value :: "dataframe \<Rightarrow> dataframe" where
  "with_value df1 = setitem df1 (lit ''value'') (\<lambda>_. Num 1)"

definition df_groupby_bar :: "pystr \<Rightarrow> dataframe \<Rightarrow> dataframe" where
  "df_groupby_bar c df1 = groupby_sum c (lit ''value'') df1"

definition top20_local :: "pystr \<Rightarrow> dataframe \<Rightarrow> dataframe" where
  "top20_local c df1 = nlargest 20 (lit ''value'') (df_groupby_bar c df1)"

text \<open>The (station identifier, trip count) pairs of a table of aggregates, in order.\<close>

definition pairs :: "pystr \<Rightarrow> dataframe \<Rightarrow> (cell \<times> cell) list" where
  "pairs c d = map (\<lambda>r. (r c, r (lit ''value''))) (rows d)"

section \<open>Temperature normalization\<close>

text \<open>
  Lines 86-90. A numeric column is a list of values, \<open>None\<close> where the value is missing
  (NaN). The functions are stated for any ordered type of values, and the subtraction of
  two values is a parameter \<open>sub\<close>: on floats it rounds, it can overflow, and the
  difference of two infinities of the same sign is NaN, which is \<open>None\<close> here. So
  nothing depends on the arithmetic of floats.
  \<open>Series.max()\<close> skips missing values and is itself missing when there is none;
  \<open>Series.diff()\<close> is missing at the first position, wherever one of the two values is
  missing, and wherever their difference is NaN;
  \<open>fillna(other)\<close> takes the value of \<open>other\<close> at each position that is missing;
  a comparison with a missing value is false.
\<close>

definition series_max :: "'a::linorder option list \<Rightarrow> 'a option" where
  "series_max xs = (case List.map_filter id xs of [] \<Rightarrow> None | y # ys \<Rightarrow> Some (fold max ys y))"

definition delta :: "('a \<Rightarrow> 'a \<Rightarrow> 'a option) \<Rightarrow> 'a option \<Rightarrow> 'a option \<Rightarrow> 'a option" where
  "delta sub prev cur = (case (prev, cur) of (Some a, Some b) \<Rightarrow> sub b a | _ \<Rightarrow> None)"

definition diff :: "('a \<Rightarrow> 'a \<Rightarrow> 'a option) \<Rightarrow> 'a option list \<Rightarrow> 'a option list" where
  "diff sub xs = (case xs of [] \<Rightarrow> [] | _ # later \<Rightarrow> None # map2 (delta sub) xs later)"

definition fillna :: "'a option list \<Rightarrow> 'a option list \<Rightarrow> 'a option list" where
  "fillna xs other = map2 (\<lambda>x y. case x of None \<Rightarrow> y | Some v \<Rightarrow> Some v) xs other"

definition gt :: "'a::linorder option \<Rightarrow> 'a \<Rightarrow> bool" where
  "gt x y = (case x of Some v \<Rightarrow> y < v | None \<Rightarrow> False)"

definition avgTemp_daily ::
  "('a::{linorder,numeral} \<Rightarrow> 'a \<Rightarrow> 'a option) \<Rightarrow> 'a option list \<Rightarrow> 'a option list" where
  "avgTemp_daily sub avgTemp =
     (if gt (series_max avgTemp) 100 then fillna (diff sub avgTemp) avgTemp else avgTemp)"

text \<open>
  The contract of the stage in the words of the specification (section 4.3): when the
  maximum exceeds 100, the first differences, with the first (undefined) difference filled
  with the first raw value; otherwise the series itself.
\<close>

definition first_differences_filled ::
  "('a \<Rightarrow> 'a \<Rightarrow> 'a option) \<Rightarrow> 'a option list \<Rightarrow> 'a option list" where
  "first_differences_filled sub xs = (case xs of [] \<Rightarrow> [] | x # _ \<Rightarrow> x # tl (diff sub xs))"

definition avgTemp_daily_spec ::
  "('a::{linorder,numeral} \<Rightarrow> 'a \<Rightarrow> 'a option) \<Rightarrow> 'a option list \<Rightarrow> 'a option list" where
  "avgTemp_daily_spec sub xs =
     (if gt (series_max xs) 100 then first_differences_filled sub xs else xs)"

section \<open>The session\<close>

text \<open>
  Four library functions are parameters of the model, since what they compute is outside
  the script: \<open>pd.to_datetime\<close> on one cell (\<open>None\<close> when it raises), \<open>str\<close> of a
  number as \<open>astype(str)\<close> writes it, the number \<open>pd.to_numeric\<close> reads from a
  string (\<open>None\<close> when there is none and \<open>errors='coerce'\<close> gives NaN), and the
  subtraction of two floats (\<open>None\<close> when the result is NaN).
\<close>

record lib =
  to_datetime :: "cell \<Rightarrow> cell option"
  num_str :: "real \<Rightarrow> pystr"
  parse_numeric :: "pystr \<Rightarrow> real option"
  float_sub :: "real \<Rightarrow> real \<Rightarrow> real option"

definition astype_str :: "lib \<Rightarrow> cell \<Rightarrow> pystr" where
  "astype_str L c = (case c of Str s \<Rightarrow> s | Num x \<Rightarrow> num_str L x | NaN \<Rightarrow> lit ''nan'')"

definition to_numeric_fillna0 :: "lib \<Rightarrow> cell \<Rightarrow> cell" where
  "to_numeric_fillna0 L c =
     (case c of
        Num x \<Rightarrow> Num x
      | NaN \<Rightarrow> Num 0
      | Str s \<Rightarrow> (case parse_numeric L s of Some x \<Rightarrow> Num x | None \<Rightarrow> Num 0))"

text \<open>
  What the script leaves behind. \<open>heap\<close> holds the tables, a table's address being its
  position; \<open>vars\<close> binds the script's names to addresses; \<open>writes\<close> lists the
  addresses of the tables changed in place, in order; \<open>rendered\<close> lists the widgets in
  the order they were drawn (the text of static markdown is not modelled); \<open>status\<close>
  is \<open>Stopped\<close> after \<open>st.stop()\<close> and \<open>Raised\<close> after an exception nobody caught.
\<close>

datatype file_state = Found | NotFound | Unreadable

datatype status = Normal | Stopped | Raised exc

datatype widget =
    PageConfig | Title | SidebarTitle | Selectbox
  | Multiselect "cell list" "cell list"
  | ErrorMsg string | WarningMsg | Markdown | Picture | Metric nat
  | LineChart "cell list" "cell list" "cell list"
  | BarChart "cell list" "cell list"
  | Write | Header | Html

record session =
  heap :: "dataframe list"
  vars :: "string \<rightharpoonup> nat"
  writes :: "nat list"
  rendered :: "widget list"
  status :: status

definition render :: "widget \<Rightarrow> session \<Rightarrow> session" where
  "render w s = s\<lparr>rendered := rendered s @ [w]\<rparr>"

definition halt :: "status \<Rightarrow> session \<Rightarrow> session" where
  "halt st s = s\<lparr>status := st\<rparr>"

definition alloc :: "dataframe \<Rightarrow> session \<Rightarrow> session" where
  "alloc d s = s\<lparr>heap := heap s @ [d]\<rparr>"

definition assign :: "string \<Rightarrow> dataframe \<Rightarrow> session \<Rightarrow> session" where
  "assign x d s = s\<lparr>heap := heap s @ [d], vars := (vars s)(x \<mapsto> length (heap s))\<rparr>"

definition obj :: "session \<Rightarrow> string \<Rightarrow> dataframe" where
  "obj s x =
     (case vars s x of
        Some a \<Rightarrow> if a < length (heap s) then heap s ! a else \<lparr>columns = [], rows = []\<rparr>
      | None \<Rightarrow> \<lparr>columns = [], rows = []\<rparr>)"

definition setitem_in_place :: "string \<Rightarrow> pystr \<Rightarrow> (row \<Rightarrow> cell) \<Rightarrow> session \<Rightarrow> session" where
  "setitem_in_place x c f s =
     (case vars s x of
        Some a \<Rightarrow> s\<lparr>heap := (heap s)[a := setitem (heap s ! a) c f], writes := writes s @ [a]\<rparr>
      | None \<Rightarrow> s)"

text \<open>The texts of the script's error messages (lines 45, 166, 182, 250 and 252).\<close>

definition file_msg :: string where
  "file_msg = ''Could not find 'reduced_data_to_plot_7.csv' in working directory.''"

definition no_data_msg :: string where
  "no_data_msg = ''No data for the selected season(s). Please choose different season(s).''"

definition no_station_msg :: string where
  "no_station_msg = ''Could not find a station column in the main dataframe (df).''"

definition map_missing_msg :: string where
  "map_missing_msg = ''Map HTML file not found at: CitiBike_Trips.html''"

definition map_error_msg :: string where
  "map_error_msg = ''Error loading map HTML: ''"

subsection \<open>The page of the most popular stations\<close>

text \<open>
  Lines 188-231: the tick labels and the numeric values are written into
  \<open>top20_local\<close> in place, then the bar chart and two paragraphs are drawn.
\<close>

definition plot_top20 :: "lib \<Rightarrow> pystr \<Rightarrow> session \<Rightarrow> session" where
  "plot_top20 L c s0 =
     (let s1 = setitem_in_place ''top20_local'' (lit ''tick_label'')
                 (\<lambda>r. Str (shorten (astype_str L (r c)) 28)) s0;
          s2 = setitem_in_place ''top20_local'' (lit ''value'')
                 (\<lambda>r. to_numeric_fillna0 L (r (lit ''value''))) s1;
          top = obj s2 ''top20_local''
      in render Markdown (render Markdown
           (render (BarChart (column (lit ''tick_label'') top) (column (lit ''value'') top)) s2)))"

text \<open>
  Lines 173-186: the count indicator is written into \<open>df1\<close> in place; without a station
  column the page reports it and stops; otherwise the aggregates and the twenty largest
  are new tables (\<open>nlargest\<close> builds one, \<open>copy()\<close> another).
\<close>

definition compute_top20 :: "session \<Rightarrow> pystr option \<times> session" where
  "compute_top20 s0 =
     (let s1 = setitem_in_place ''df1'' (lit ''value'') (\<lambda>_. Num 1) s0 in
      case station_col_df (columns (obj s1 ''df1'')) of
        None \<Rightarrow> (None, halt Stopped (render (ErrorMsg no_station_msg) s1))
      | Some c \<Rightarrow>
          let s2 = assign ''df_groupby_bar'' (groupby_sum c (lit ''value'') (obj s1 ''df1'')) s1;
              largest = nlargest 20 (lit ''value'') (obj s2 ''df_groupby_bar'')
          in (Some c, assign ''top20_local'' largest (alloc largest s2)))"

definition aggregation_stage :: "lib \<Rightarrow> session \<Rightarrow> session" where
  "aggregation_stage L s0 =
     (case compute_top20 s0 of
        (None, s) \<Rightarrow> s
      | (Some c, s) \<Rightarrow> plot_top20 L c s)"

text \<open>
  Lines 155-170: the season filter, the filtered copy \<open>df1\<close> (\<open>query\<close> builds a table,
  \<open>copy()\<close> another), the message when it is empty, the metric, then the stage above.
\<close>

definition most_popular_stations :: "lib \<Rightarrow> cell list \<Rightarrow> session \<Rightarrow> session" where
  "most_popular_stations L season_filter s0 =
     (case getitem (obj s0 ''df'') (lit ''season'') of
        Inl e \<Rightarrow> halt (Raised e) s0
      | Inr seasons \<Rightarrow>
          let s1 = render (Multiselect (unique seasons) (unique seasons)) s0;
              filtered = query_season (obj s1 ''df'') season_filter;
              s2 = assign ''df1'' filtered (alloc filtered s1)
          in if is_empty (obj s2 ''df1'') then render (ErrorMsg no_data_msg) s2
             else (case getitem (obj s2 ''df1'') (lit ''bike_rides_daily'') of
                     Inl e \<Rightarrow> halt (Raised e) s2
                   | Inr rides \<Rightarrow> aggregation_stage L (render (Metric (count rides)) s2)))"

subsection \<open>The weather page\<close>

text \<open>
  Lines 79-149. The date column is parsed in place when every cell parses, and left as it
  is otherwise; the daily temperature is written into the shared table \<open>df\<close> in place;
  a column the chart needs and the table lacks raises \<open>KeyError\<close>, and a temperature
  column holding strings raises \<open>TypeError\<close> at the comparison with 100.
\<close>

definition opt_of_cell :: "cell \<Rightarrow> real option" where
  "opt_of_cell c = (case c of Num x \<Rightarrow> Some x | _ \<Rightarrow> None)"

definition cell_of_opt :: "real option \<Rightarrow> cell" where
  "cell_of_opt x = (case x of Some v \<Rightarrow> Num v | None \<Rightarrow> NaN)"

definition is_str :: "cell \<Rightarrow> bool" where
  "is_str c = (case c of Str _ \<Rightarrow> True | _ \<Rightarrow> False)"

definition setcol_in_place :: "string \<Rightarrow> pystr \<Rightarrow> cell list \<Rightarrow> session \<Rightarrow> session" where
  "setcol_in_place x c vals s =
     (case vars s x of
        Some a \<Rightarrow>
          s\<lparr>heap := (heap s)[a :=
                \<lparr>columns = (if c \<in> set (columns (heap s ! a)) then columns (heap s ! a)
                             else columns (heap s ! a) @ [c]),
                 rows = map2 (\<lambda>r v. r(c := v)) (rows (heap s ! a)) vals\<rparr>],
            writes := writes s @ [a]\<rparr>
      | None \<Rightarrow> s)"

definition parse_dates :: "lib \<Rightarrow> session \<Rightarrow> session" where
  "parse_dates L s =
     (if lit ''date'' \<in> set (columns (obj s ''df'')) then
        (if list_all (\<lambda>c. to_datetime L c \<noteq> None) (column (lit ''date'') (obj s ''df''))
         then setitem_in_place ''df'' (lit ''date'') (\<lambda>r. the (to_datetime L (r (lit ''date'')))) s
         else s)
      else s)"

definition weather_chart :: "session \<Rightarrow> session" where
  "weather_chart s =
     (case getitem (obj s ''df'') (lit ''date'') of
        Inl e \<Rightarrow> halt (Raised e) s
      | Inr dates \<Rightarrow>
     (case getitem (obj s ''df'') (lit ''bike_rides_daily'') of
        Inl e \<Rightarrow> halt (Raised e) s
      | Inr rides \<Rightarrow>
     (case getitem (obj s ''df'') (lit ''avgTemp_daily'') of
        Inl e \<Rightarrow> halt (Raised e) s
      | Inr temps \<Rightarrow> render Markdown (render Markdown (render (LineChart dates rides temps) s)))))"

definition weather_page :: "lib \<Rightarrow> session \<Rightarrow> session" where
  "weather_page L s0 =
     (let s1 = parse_dates L s0 in
      if lit ''avgTemp'' \<in> set (columns (obj s1 ''df'')) then
        (let avgTemp = column (lit ''avgTemp'') (obj s1 ''df'') in
         if list_ex is_str avgTemp then halt (Raised TypeError) s1
         else weather_chart
                (setcol_in_place ''df'' (lit ''avgTemp_daily'')
                   (map cell_of_opt (avgTemp_daily (float_sub L) (map opt_of_cell avgTemp))) s1))
      else weather_chart s1)"

subsection \<open>The other pages and the script\<close>

text \<open>
  Lines 57-73, 233-264 and 23-52. Whether an image or the map file can be opened is an
  input. A missing primary file is reported and the script stops; a missing or unreadable
  secondary file leaves \<open>top20_csv\<close> without a table.
\<close>

definition intro_page :: "bool \<Rightarrow> session \<Rightarrow> session" where
  "intro_page image_ok s =
     render (if image_ok then Picture else WarningMsg) (s\<lparr>rendered := rendered s @ replicate 7 Markdown\<rparr>)"

definition map_page :: "file_state \<Rightarrow> session \<Rightarrow> session" where
  "map_page html s0 =
     (let s = render Write s0 in
      case html of
        Found \<Rightarrow> render Markdown (render Html (render Header s))
      | NotFound \<Rightarrow> render (ErrorMsg map_missing_msg) s
      | Unreadable \<Rightarrow>
          (render (ErrorMsg map_error_msg) s)\<lparr>rendered := rendered (render (ErrorMsg map_error_msg) s) @ replicate 3 Markdown\<rparr>)"

definition recommendations_page :: "bool \<Rightarrow> session \<Rightarrow> session" where
  "recommendations_page image_ok s0 =
     (let s = render Header s0 in
      if image_ok then (render Picture s)\<lparr>rendered := rendered (render Picture s) @ replicate 4 Markdown\<rparr>
      else halt (Raised FileNotFoundError) s)"

record env =
  primary_csv :: "exc + dataframe"
  top20_file :: "exc + dataframe"
  page_choice :: string
  season_choice :: "cell list"
  intro_image :: bool
  map_html :: file_state
  recs_image :: bool
  pandas :: lib

definition start :: session where
  "start = \<lparr>heap = [], vars = Map.empty, writes = [], rendered = [], status = Normal\<rparr>"

definition banner :: session where
  "banner = render Selectbox (render SidebarTitle (render Title (render PageConfig start)))"

definition load_top20 :: "exc + dataframe \<Rightarrow> session \<Rightarrow> session" where
  "load_top20 outcome s = (case outcome of Inr t \<Rightarrow> assign ''top20_csv'' t s | Inl _ \<Rightarrow> s)"

definition dispatch :: "env \<Rightarrow> session \<Rightarrow> session" where
  "dispatch E s =
     (if page_choice E = ''Intro page'' then intro_page (intro_image E) s
      else if page_choice E = ''Weather component and bike usage'' then weather_page (pandas E) s
      else if page_choice E = ''Most popular stations''
        then most_popular_stations (pandas E) (season_choice E) s
      else if page_choice E = ''Interactive map with aggregated bike trips''
        then map_page (map_html E) s
      else if page_choice E = ''Recommendations'' then recommendations_page (recs_image E) s
      else render Write s)"

definition script :: "env \<Rightarrow> session" where
  "script E =
     (case primary_csv E of
        Inl FileNotFoundError \<Rightarrow> halt Stopped (render (ErrorMsg file_msg) banner)
      | Inl e \<Rightarrow> halt (Raised e) banner
      | Inr table \<Rightarrow> dispatch E (load_top20 (top20_file E) (assign ''df'' table banner)))"

chapter \<open>Notions used in the statements\<close>

text \<open>
  The two tests of the station heuristic by name, as the specification words them.
\<close>

definition start_and_station :: "pystr \<Rightarrow> bool" where
  "start_and_station c \<longleftrightarrow> contains (lit ''start'') c \<and> contains (lit ''station'') c"

definition station_or_name :: "pystr \<Rightarrow> bool" where
  "station_or_name c \<longleftrightarrow> contains (lit ''station'') c \<or> contains (lit ''name'') c"

text \<open>
  The session in which the stage of lines 173-186 starts when \<open>df1\<close> is the only table:
  used to state what the stage does to a given filtered copy.
\<close>

definition stage_input :: "dataframe \<Rightarrow> session" where
  "stage_input df1 = assign ''df1'' df1 start"

text \<open>
  The session after lines 155-163: the multiselect is drawn, \<open>query\<close> has built the
  filtered table and \<open>copy()\<close> the table bound to \<open>df1\<close>.
\<close>

definition with_df1 :: "cell list \<Rightarrow> nat \<Rightarrow> session \<Rightarrow> session" where
  "with_df1 season_filter a s =
     assign ''df1'' (query_season (heap s ! a) season_filter)
       (alloc (query_season (heap s ! a) season_filter)
          (render (Multiselect (unique (column (lit ''season'') (heap s ! a)))
                               (unique (column (lit ''season'') (heap s ! a)))) s))"

text \<open>
  The session after lines 173-186 when the station column \<open>c\<close> was found, \<open>df1\<close>
  being at address \<open>a\<close>.
\<close>

definition after_compute :: "pystr \<Rightarrow> nat \<Rightarrow> session \<Rightarrow> session" where
  "after_compute c a s =
     s\<lparr>heap := (heap s)[a := with_value (heap s ! a)] @
                [df_groupby_bar c (with_value (heap s ! a)),
                 top20_local c (with_value (heap s ! a)),
                 top20_local c (with_value (heap s ! a))],
       vars := (vars s)(''df_groupby_bar'' \<mapsto> length (heap s),
                        ''top20_local'' \<mapsto> length (heap s) + 2),
       writes := writes s @ [a]\<rparr>"

text \<open>
  \<open>kept n s s'\<close>: from \<open>s\<close> to \<open>s'\<close> the first \<open>n\<close> tables are unchanged, the name
  \<open>df\<close> is bound as before, and every table changed in place on the way has an address
  of at least \<open>n\<close>.
\<close>

definition kept :: "nat \<Rightarrow> session \<Rightarrow> session \<Rightarrow> bool" where
  "kept n s s' \<longleftrightarrow>
     n \<le> length (heap s) \<and> length (heap s) \<le> length (heap s') \<and>
     take n (heap s') = take n (heap s) \<and> vars s' ''df'' = vars s ''df'' \<and>
     (\<exists>ws. writes s' = writes s @ ws \<and> list_all (\<lambda>w. n \<le> w) ws)"

section \<open>Example inputs\<close>

text \<open>
  The table with the given header and the given rows of cells, and the tables, library
  functions and inputs the examples run on: seven trips from three stations, six of them
  in summer; two summer trips of which one has no station; a table whose station column
  the heuristic does not recognise. \<open>exact_sub\<close> is the subtraction of reals, which is
  always defined.
\<close>

definition frame :: "pystr list \<Rightarrow> cell list list \<Rightarrow> dataframe" where
  "frame cols data = \<lparr>columns = cols, rows = map (\<lambda>cells. (\<lambda>c. case map_of (zip cols cells) c of Some v \<Rightarrow> v | None \<Rightarrow> NaN)) data\<rparr>"

definition example_trips :: dataframe where
  "example_trips =
     frame [lit ''season'', lit ''start_station_name'', lit ''bike_rides_daily'']
       [[Str (lit ''Summer''), Str (lit ''A''), Num 7],
        [Str (lit ''Summer''), Str (lit ''B''), Num 7],
        [Str (lit ''Winter''), Str (lit ''C''), Num 2],
        [Str (lit ''Summer''), Str (lit ''B''), Num 9],
        [Str (lit ''Summer''), Str (lit ''C''), Num 9],
        [Str (lit ''Summer''), Str (lit ''A''), Num 4],
        [Str (lit ''Summer''), Str (lit ''B''), Num 4]]"

definition missing_station_trips :: dataframe where
  "missing_station_trips =
     frame [lit ''season'', lit ''name'']
       [[Str (lit ''Summer''), Str (lit ''A'')],
        [Str (lit ''Summer''), NaN]]"

definition no_station_trips :: dataframe where
  "no_station_trips =
     frame [lit ''season'', lit ''origin'', lit ''bike_rides_daily'']
       [[Str (lit ''Summer''), Str (lit ''A''), Num 3]]"

definition exact_sub :: "real \<Rightarrow> real \<Rightarrow> real option" where
  "exact_sub a b = Some (a - b)"

definition example_lib :: lib where
  "example_lib =
     \<lparr>to_datetime = Some, num_str = (\<lambda>_. lit ''0''), parse_numeric = (\<lambda>_. None),
      float_sub = exact_sub\<rparr>"

definition example_env :: env where
  "example_env =
     \<lparr>primary_csv = Inr example_trips, top20_file = Inl FileNotFoundError,
      page_choice = ''Most popular stations'', season_choice = [Str (lit ''Summer'')],
      intro_image = True, map_html = Found, recs_image = True, pandas = example_lib\<rparr>"

chapter \<open>Properties\<close>

section \<open>The label formatter\<close>

subsection \<open>Facts about slicing and trimming\<close>

lemma length_rstrip_le: "length (rstrip s) \<le> length s"
  unfolding rstrip_def using length_dropWhile_le [of isspace "rev s"] by simp

lemma rstrip_idem: "rstrip (rstrip s) = rstrip s"
  by (simp add: rstrip_def)

lemma slice_upto_nonneg: "0 \<le> k \<Longrightarrow> slice_upto xs k = take (nat k) xs"
  by (simp add: slice_upto_def)

lemma slice_upto_minus_one: "slice_upto xs (- 1) = butlast xs"
  by (simp add: slice_upto_def butlast_conv_take nat_diff_distrib')

lemma length_slice_upto_nonneg: "0 \<le> k \<Longrightarrow> int (length (slice_upto xs k)) \<le> k"
  by (simp add: slice_upto_def)

lemma ellipsis_not_space: "\<not> isspace ellipsis"
  by (simp add: isspace_def ellipsis_def)

lemma length_shorten_bound:
  assumes "1 \<le> n"
  shows "int (length (shorten s n)) \<le> n"
proof (cases "int (length s) \<le> n")
  case True
  then show ?thesis by (simp add: shorten_def)
next
  case False
  have "int (length (rstrip (slice_upto s (n - 1)))) \<le> int (length (slice_upto s (n - 1)))"
    using length_rstrip_le [of "slice_upto s (n - 1)"] by simp
  also have "\<dots> \<le> n - 1"
    using assms by (intro length_slice_upto_nonneg) simp
  finally show ?thesis using False by (simp add: shorten_def)
qed

subsection \<open>C3: what the formatter returns\<close>

text \<open>
  C3 as stated fails at the maximum display length 0: for \<open>s = "ab"\<close> the test
  \<open>len(s) <= 0\<close> fails, \<open>n - 1\<close> is \<open>-1\<close>, and \<open>s[:-1]\<close> is \<open>"a"\<close>, so the code
  returns \<open>"a"\<close> followed by the ellipsis, where the first \<open>n - 1\<close> characters are no
  characters at all.
\<close>

theorem shorten_spec_counterexample:
  "shorten (lit ''ab'') (int 0) = lit ''a'' @ [ellipsis] \<and>
   shorten_spec (lit ''ab'') 0 = [ellipsis] \<and>
   shorten (lit ''ab'') (int 0) \<noteq> shorten_spec (lit ''ab'') 0"
  by (simp add: shorten_def shorten_spec_def slice_upto_def rstrip_def lit_def isspace_def
      ellipsis_def)

text \<open>
  C3, amended: for every string \<open>s\<close> and every maximum display length \<open>n \<ge> 1\<close>, the
  formatter returns \<open>s\<close> unchanged when \<open>len(s) \<le> n\<close>, and otherwise the first
  \<open>n - 1\<close> characters of \<open>s\<close> with trailing whitespace trimmed, followed by one
  ellipsis; the empty string is returned unchanged for every maximum length
  \<open>n \<ge> 0\<close>.
\<close>

theorem shorten_meets_spec:
  "(1 \<le> n \<longrightarrow> shorten s (int n) = shorten_spec s n) \<and> shorten [] (int n) = []"
proof -
  have "shorten s (int n) = shorten_spec s n" if "1 \<le> n"
  proof -
    from that have nonneg: "0 \<le> int n - 1" by simp
    have count: "nat (int n - 1) = n - 1" by arith
    show ?thesis
      unfolding shorten_def shorten_spec_def slice_upto_nonneg [OF nonneg] count by simp
  qed
  moreover have "shorten [] (int n) = []"
    by (simp add: shorten_def)
  ultimately show ?thesis by simp
qed

theorem shorten_meets_spec_witness:
  "shorten (lit ''a b c'') (int 3) = lit ''a'' @ [ellipsis] \<and>
   shorten (lit ''abc'') (int 3) = lit ''abc'' \<and>
   shorten [] (int 0) = []"
proof -
  have "shorten (lit ''a b c'') (int 3) = shorten_spec (lit ''a b c'') 3"
    and "shorten (lit ''abc'') (int 3) = shorten_spec (lit ''abc'') 3"
    and "shorten [] (int 0) = []"
    using shorten_meets_spec [of 3 "lit ''a b c''"] shorten_meets_spec [of 3 "lit ''abc''"]
      shorten_meets_spec [of 0 "[]"]
    by simp_all
  then show ?thesis
    by (simp add: shorten_spec_def rstrip_def lit_def isspace_def)
qed

subsection \<open>C10: the result fits the maximum length\<close>

text \<open>
  C10: for every string \<open>s\<close> and every maximum display length \<open>n \<ge> 1\<close> the result of
  the formatter has at most \<open>n\<close> characters.
\<close>

theorem shorten_length_le:
  assumes "1 \<le> n"
  shows "int (length (shorten s n)) \<le> n"
  using assms by (rule length_shorten_bound)

theorem shorten_length_le_witness:
  "(1::int) \<le> 4 \<and> length (shorten (lit ''a   bcd'') 4) = 2 \<and>
   int (length (shorten (lit ''a   bcd'') 4)) \<le> 4"
proof -
  have "int (length (shorten (lit ''a   bcd'') 4)) \<le> 4"
    using shorten_length_le [of 4 "lit ''a   bcd''"] by simp
  moreover have "length (shorten (lit ''a   bcd'') 4) = 2"
    by (simp add: shorten_def slice_upto_def rstrip_def lit_def isspace_def)
  ultimately show ?thesis by simp
qed

subsection \<open>C8: formatting twice is formatting once\<close>

lemma shorten_within: "int (length s) \<le> n \<Longrightarrow> shorten s n = s"
  by (simp add: shorten_def)

lemma shorten_zero: "s \<noteq> [] \<Longrightarrow> shorten s 0 = rstrip (butlast s) @ [ellipsis]"
  by (simp add: shorten_def slice_upto_minus_one)

lemma shorten_idem_zero: "shorten (shorten s 0) 0 = shorten s 0"
proof (cases "s = []")
  case True
  then show ?thesis by (simp add: shorten_def)
next
  case False
  then have "shorten (shorten s 0) 0 = shorten (rstrip (butlast s) @ [ellipsis]) 0"
    by (simp add: shorten_zero)
  also have "\<dots> = rstrip (rstrip (butlast s)) @ [ellipsis]"
    by (simp add: shorten_zero)
  finally show ?thesis using False by (simp add: rstrip_idem shorten_zero)
qed

text \<open>
  C8: for a maximum length \<open>n\<close> (a length, so not negative), a string within the
  maximum length is returned unchanged, in particular one that ends in an ellipsis; and
  applying the formatter to any of its own outputs with the same maximum length returns
  that output unchanged.
\<close>

theorem shorten_idempotent:
  "(length s \<le> n \<longrightarrow> shorten s (int n) = s) \<and>
   (t \<noteq> [] \<and> last t = ellipsis \<and> length t \<le> n \<longrightarrow> shorten t (int n) = t) \<and>
   shorten (shorten s (int n)) (int n) = shorten s (int n)"
proof -
  have "shorten (shorten s (int n)) (int n) = shorten s (int n)"
  proof (cases "n = 0")
    case True
    then show ?thesis using shorten_idem_zero [of s] by simp
  next
    case False
    then have "int (length (shorten s (int n))) \<le> int n"
      by (intro length_shorten_bound) simp
    then show ?thesis by (rule shorten_within)
  qed
  then show ?thesis by (simp add: shorten_within)
qed

theorem shorten_idempotent_witness:
  "shorten (lit ''ab'') (int 5) = lit ''ab'' \<and>
   shorten (lit ''a'' @ [ellipsis]) (int 2) = lit ''a'' @ [ellipsis] \<and>
   shorten (lit ''a b c'') (int 3) = lit ''a'' @ [ellipsis] \<and>
   shorten (shorten (lit ''a b c'') (int 3)) (int 3) = lit ''a'' @ [ellipsis]"
proof -
  have out: "shorten (lit ''a b c'') (int 3) = lit ''a'' @ [ellipsis]"
    by (simp add: shorten_def slice_upto_def rstrip_def lit_def isspace_def)
  have short: "length (lit ''ab'') \<le> 5"
    by (simp add: lit_def)
  have dotted: "lit ''a'' @ [ellipsis] \<noteq> [] \<and> last (lit ''a'' @ [ellipsis]) = ellipsis \<and>
      length (lit ''a'' @ [ellipsis]) \<le> 2"
    by (simp add: lit_def)
  have "shorten (lit ''ab'') (int 5) = lit ''ab''"
    using shorten_idempotent [of "lit ''ab''" 5 "[]"] short by blast
  moreover have "shorten (lit ''a'' @ [ellipsis]) (int 2) = lit ''a'' @ [ellipsis]"
    using shorten_idempotent [of "[]" 2 "lit ''a'' @ [ellipsis]"] dotted by blast
  moreover have "shorten (shorten (lit ''a b c'') (int 3)) (int 3) = lit ''a'' @ [ellipsis]"
    using shorten_idempotent [of "lit ''a b c''" 3 "[]"] out by metis
  ultimately show ?thesis using out by blast
qed

section \<open>Temperature normalization\<close>

lemma diff_Cons: "diff sub (x # xs) = None # map2 (delta sub) (x # xs) xs"
  by (simp add: diff_def)

lemma length_diff: "length (diff sub xs) = length xs"
  by (cases xs) (simp_all add: diff_def)

lemma diff_nth:
  assumes "0 < i" and "i < length xs"
  shows "diff sub xs ! i = delta sub (xs ! (i - 1)) (xs ! i)"
proof (cases xs)
  case Nil
  with assms show ?thesis by simp
next
  case (Cons x rest)
  from assms obtain j where j: "i = Suc j" by (cases i) auto
  with assms Cons have "j < length rest" by simp
  then have "map2 (delta sub) (x # rest) rest ! j = delta sub ((x # rest) ! j) (rest ! j)"
    by simp
  with Cons j show ?thesis by (simp add: diff_Cons)
qed

lemma length_fillna: "length (fillna ds xs) = min (length ds) (length xs)"
  by (simp add: fillna_def)

lemma fillna_nth:
  assumes "i < length ds" and "i < length xs"
  shows "fillna ds xs ! i = (case ds ! i of None \<Rightarrow> xs ! i | Some v \<Rightarrow> Some v)"
  using assms by (simp add: fillna_def)

lemma fold_max_ge: "(y::'a::linorder) \<le> fold max ys y \<and> (\<forall>x\<in>set ys. x \<le> fold max ys y)"
proof (induction ys arbitrary: y)
  case Nil
  then show ?case by simp
next
  case (Cons z zs)
  from Cons [of "max z y"] show ?case by (auto simp: max_def split: if_splits)
qed

lemma fold_max_mem: "fold max ys (y::'a::linorder) \<in> set (y # ys)"
proof (induction ys arbitrary: y)
  case Nil
  then show ?case by simp
next
  case (Cons z zs)
  from Cons [of "max z y"] show ?case by (auto simp: max_def split: if_splits)
qed

lemma set_map_filter_id: "set (List.map_filter id xs) = {x. Some x \<in> set xs}"
  by (induction xs) (auto simp: List.map_filter_simps split: option.splits)

lemma series_max_Some:
  "series_max xs = Some m \<longleftrightarrow> Some m \<in> set xs \<and> (\<forall>x. Some x \<in> set xs \<longrightarrow> x \<le> m)"
proof (cases "List.map_filter id xs")
  case Nil
  then have "{x. Some x \<in> set xs} = {}"
    using set_map_filter_id [of xs] by simp
  with Nil show ?thesis by (auto simp: series_max_def)
next
  case (Cons y ys)
  then have vals: "{x. Some x \<in> set xs} = set (y # ys)"
    using set_map_filter_id [of xs] by simp
  have top: "fold max ys y \<in> set (y # ys)" "\<forall>x\<in>set (y # ys). x \<le> fold max ys y"
    using fold_max_mem [of ys y] fold_max_ge [of y ys] by auto
  have "series_max xs = Some (fold max ys y)"
    using Cons by (simp add: series_max_def)
  moreover have "m = fold max ys y"
    if "m \<in> set (y # ys)" "\<forall>x\<in>set (y # ys). x \<le> m"
    using that top by (meson antisym)
  ultimately show ?thesis using vals top by auto
qed

lemma series_max_None: "series_max xs = None \<longleftrightarrow> (\<forall>x. Some x \<notin> set xs)"
proof -
  have "series_max xs = None \<longleftrightarrow> List.map_filter id xs = []"
    by (simp add: series_max_def split: list.splits)
  also have "\<dots> \<longleftrightarrow> {x. Some x \<in> set xs} = {}"
    using set_map_filter_id [of xs] by (metis set_empty)
  finally show ?thesis by auto
qed

lemma series_max_nonempty: "series_max xs = Some m \<Longrightarrow> xs \<noteq> []"
  by (auto simp: series_max_Some)

lemma avgTemp_daily_low: "\<not> gt (series_max xs) 100 \<Longrightarrow> avgTemp_daily sub xs = xs"
  by (simp add: avgTemp_daily_def)

lemma avgTemp_daily_high:
  "gt (series_max xs) 100 \<Longrightarrow> avgTemp_daily sub xs = fillna (diff sub xs) xs"
  by (simp add: avgTemp_daily_def)

lemma fillna_diff_nth:
  assumes "i < length xs"
  shows "fillna (diff sub xs) xs ! i =
         (if i = 0 then xs ! 0
          else case delta sub (xs ! (i - 1)) (xs ! i) of None \<Rightarrow> xs ! i | Some d \<Rightarrow> Some d)"
proof (cases "i = 0")
  case True
  from assms obtain x rest where "xs = x # rest" by (cases xs) auto
  with True show ?thesis by (simp add: diff_Cons fillna_def)
next
  case False
  with assms show ?thesis
    by (simp add: fillna_nth length_diff diff_nth)
qed

text \<open>
  What the code returns where the difference of two present values is undefined, as for
  two infinities of the same sign: the raw value.
\<close>

lemma fillna_diff_undefined:
  assumes "0 < i" and "i < length xs"
    and "xs ! (i - 1) = Some a" and "xs ! i = Some b" and "sub b a = None"
  shows "fillna (diff sub xs) xs ! i = Some b"
  using assms by (simp add: fillna_diff_nth delta_def)

text \<open>What the code returns right after a missing value: the raw value.\<close>

lemma fillna_diff_after_missing:
  assumes "0 < i" and "i < length xs" and "xs ! (i - 1) = None"
  shows "fillna (diff sub xs) xs ! i = xs ! i"
  using assms by (simp add: fillna_diff_nth delta_def)

subsection \<open>C4: unchanged up to 100, first differences above\<close>

text \<open>
  C4 as stated fails on a series with a missing value: in \<open>[150, NaN, 160]\<close> the maximum
  is 160, the difference at the third position is undefined as the one at the first, and
  \<open>fillna\<close> fills both with the raw values, so the code returns \<open>[150, NaN, 160]\<close> where
  the first differences with the first one filled are \<open>[150, NaN, NaN]\<close>. No two present
  values are subtracted in this series, so nothing here depends on the subtraction.
\<close>

theorem avgTemp_daily_counterexample:
  "series_max [Some (150::real), None, Some 160] = Some 160 \<and>
   avgTemp_daily exact_sub [Some 150, None, Some 160] = [Some 150, None, Some 160] \<and>
   avgTemp_daily_spec exact_sub [Some 150, None, Some 160] = [Some 150, None, None] \<and>
   avgTemp_daily exact_sub [Some 150, None, Some 160] \<noteq>
     avgTemp_daily_spec exact_sub [Some 150, None, Some 160]"
  by (simp add: gt_def avgTemp_daily_def avgTemp_daily_spec_def series_max_def
      List.map_filter_simps diff_def delta_def fillna_def first_differences_filled_def)

text \<open>
  C4, amended: for every numeric temperature series, the normalization stage leaves the
  series unchanged when its maximum value is at most 100 (and when it has no value at
  all); when the maximum exceeds 100 it returns a series of the same length whose first
  entry is the first raw value and whose entry at each later position is the first
  difference there whenever that difference is defined (both values are present and
  their difference is a number), and is missing whenever the raw value there is missing.
  The positions where the raw value is present and the difference undefined are left out.
\<close>

theorem avgTemp_daily_amended:
  "(series_max xs = None \<longrightarrow> avgTemp_daily sub xs = xs) \<and>
   (series_max xs = Some m \<and> m \<le> 100 \<longrightarrow> avgTemp_daily sub xs = xs) \<and>
   (series_max xs = Some m \<and> 100 < m \<longrightarrow>
      length (avgTemp_daily sub xs) = length xs \<and>
      avgTemp_daily sub xs ! 0 = xs ! 0 \<and>
      (\<forall>i. 0 < i \<and> i < length xs \<longrightarrow>
         (\<forall>a b d. xs ! (i - 1) = Some a \<and> xs ! i = Some b \<and> sub b a = Some d \<longrightarrow>
            avgTemp_daily sub xs ! i = Some d) \<and>
         (xs ! i = None \<longrightarrow> avgTemp_daily sub xs ! i = None)))"
proof (intro conjI impI)
  assume "series_max xs = None"
  then show "avgTemp_daily sub xs = xs"
    by (simp add: avgTemp_daily_low gt_def)
next
  assume "series_max xs = Some m \<and> m \<le> 100"
  then have "\<not> gt (series_max xs) 100"
    by (auto simp: gt_def)
  then show "avgTemp_daily sub xs = xs"
    by (rule avgTemp_daily_low)
next
  assume high: "series_max xs = Some m \<and> 100 < m"
  then have out: "avgTemp_daily sub xs = fillna (diff sub xs) xs"
    by (simp add: avgTemp_daily_high gt_def)
  from high have "0 < length xs"
    using series_max_nonempty [of xs m] by simp
  then show "avgTemp_daily sub xs ! 0 = xs ! 0"
    unfolding out by (simp add: fillna_diff_nth)
  show "length (avgTemp_daily sub xs) = length xs"
    unfolding out by (simp add: length_fillna length_diff)
  show "\<forall>i. 0 < i \<and> i < length xs \<longrightarrow>
         (\<forall>a b d. xs ! (i - 1) = Some a \<and> xs ! i = Some b \<and> sub b a = Some d \<longrightarrow>
            avgTemp_daily sub xs ! i = Some d) \<and>
         (xs ! i = None \<longrightarrow> avgTemp_daily sub xs ! i = None)"
    unfolding out by (auto simp: fillna_diff_nth delta_def split: option.splits)
qed

theorem avgTemp_daily_amended_witness:
  "avgTemp_daily exact_sub [Some 10, Some 20, Some 15] = [Some 10, Some 20, Some 15] \<and>
   avgTemp_daily exact_sub [] = [] \<and>
   length (avgTemp_daily exact_sub [Some 150, Some 170, None, Some 200]) = 4 \<and>
   avgTemp_daily exact_sub [Some 150, Some 170, None, Some 200] ! 0 = Some 150 \<and>
   avgTemp_daily exact_sub [Some 150, Some 170, None, Some 200] ! 1 = Some 20 \<and>
   avgTemp_daily exact_sub [Some 150, Some 170, None, Some 200] ! 2 = None"
proof -
  let ?low = "[Some (10::real), Some 20, Some 15]"
  let ?high = "[Some (150::real), Some 170, None, Some 200]"
  have low: "series_max ?low = Some 20 \<and> (20::real) \<le> 100"
    and high: "series_max ?high = Some 200 \<and> (100::real) < 200"
    and none: "series_max ([]::real option list) = None"
    by (simp_all add: series_max_def List.map_filter_simps)
  have "avgTemp_daily exact_sub ?low = ?low"
    using avgTemp_daily_amended [where xs = ?low and m = 20 and sub = exact_sub] low by blast
  moreover have "avgTemp_daily exact_sub [] = []"
    using avgTemp_daily_amended [where xs = "[]::real option list" and sub = exact_sub] none
    by blast
  moreover from avgTemp_daily_amended [where xs = ?high and m = 200 and sub = exact_sub] high
  have rest: "length (avgTemp_daily exact_sub ?high) = length ?high"
    "avgTemp_daily exact_sub ?high ! 0 = ?high ! 0"
    "\<forall>i. 0 < i \<and> i < length ?high \<longrightarrow>
       (\<forall>a b d. ?high ! (i - 1) = Some a \<and> ?high ! i = Some b \<and> exact_sub b a = Some d \<longrightarrow>
          avgTemp_daily exact_sub ?high ! i = Some d) \<and>
       (?high ! i = None \<longrightarrow> avgTemp_daily exact_sub ?high ! i = None)"
    by blast+
  have "avgTemp_daily exact_sub ?high ! 1 = Some 20"
    using rest(3) [rule_format, of 1, THEN conjunct1, rule_format, of 150 170 20]
    by (simp add: exact_sub_def)
  moreover have "avgTemp_daily exact_sub ?high ! 2 = None"
    using rest(3) [rule_format, of 2, THEN conjunct2] by simp
  ultimately show ?thesis using rest(1,2) by simp
qed

text \<open>
  When every later position has a defined difference or a missing raw value, the whole
  series is the one of the specification; so it is for a series of present values whose
  differences are all defined.
\<close>

lemma first_differences_filled_nth:
  assumes "i < length xs"
  shows "first_differences_filled sub xs ! i =
         (if i = 0 then xs ! 0 else delta sub (xs ! (i - 1)) (xs ! i))"
proof (cases xs)
  case Nil
  with assms show ?thesis by simp
next
  case (Cons x rest)
  show ?thesis
  proof (cases i)
    case 0
    with Cons show ?thesis by (simp add: first_differences_filled_def)
  next
    case (Suc j)
    with assms Cons have "diff sub xs ! i = delta sub (xs ! (i - 1)) (xs ! i)"
      by (intro diff_nth) simp_all
    with Cons Suc show ?thesis
      by (simp add: first_differences_filled_def diff_Cons)
  qed
qed

lemma avgTemp_daily_whole:
  assumes "gt (series_max xs) 100"
    and "\<And>i. 0 < i \<Longrightarrow> i < length xs \<Longrightarrow>
           delta sub (xs ! (i - 1)) (xs ! i) \<noteq> None \<or> xs ! i = None"
  shows "avgTemp_daily sub xs = first_differences_filled sub xs"
proof (rule nth_equalityI)
  show "length (avgTemp_daily sub xs) = length (first_differences_filled sub xs)"
    using assms(1)
    by (cases xs) (simp_all add: avgTemp_daily_high length_fillna length_diff
        first_differences_filled_def diff_Cons)
next
  fix i
  assume "i < length (avgTemp_daily sub xs)"
  then have i: "i < length xs"
    using assms(1) by (simp add: avgTemp_daily_high length_fillna length_diff)
  show "avgTemp_daily sub xs ! i = first_differences_filled sub xs ! i"
  proof (cases "i = 0")
    case True
    with i assms(1) show ?thesis
      by (simp add: avgTemp_daily_high fillna_diff_nth first_differences_filled_nth)
  next
    case False
    with i assms(2) [of i] assms(1) show ?thesis
      by (auto simp: avgTemp_daily_high fillna_diff_nth first_differences_filled_nth
          split: option.splits)
  qed
qed

section \<open>The station column\<close>

lemma station_candidates_filter: "station_candidates cols = filter start_and_station cols"
  unfolding station_candidates_def start_and_station_def
  by (rule filter_cong) auto

lemma station_col_df_find:
  "station_col_df cols =
     (case find start_and_station cols of Some c \<Rightarrow> Some c | None \<Rightarrow> find station_or_name cols)"
proof -
  have "(case filter P cols of c # _ \<Rightarrow> Some c | [] \<Rightarrow> d) =
        (case find P cols of Some c \<Rightarrow> Some c | None \<Rightarrow> d)" for P :: "pystr \<Rightarrow> bool" and d
    by (induction cols) auto
  then show ?thesis
    unfolding station_col_df_def station_candidates_filter station_or_name_def [abs_def] by simp
qed

lemma station_col_df_Some:
  assumes "station_col_df cols = Some c"
  shows "c \<in> set cols \<and> station_or_name c"
proof (cases "find start_and_station cols")
  case None
  with assms have "find station_or_name cols = Some c"
    by (simp add: station_col_df_find)
  then show ?thesis by (auto simp: find_Some_iff)
next
  case (Some d)
  with assms have "find start_and_station cols = Some c"
    by (simp add: station_col_df_find)
  then have "c \<in> set cols \<and> start_and_station c" by (auto simp: find_Some_iff)
  then show ?thesis by (simp add: start_and_station_def station_or_name_def)
qed

lemma value_not_station: "\<not> station_or_name (lit ''value'')"
  by (simp add: station_or_name_def lit_def)

lemma station_col_df_not_value: "station_col_df cols = Some c \<Longrightarrow> c \<noteq> lit ''value''"
  using station_col_df_Some value_not_station by blast

lemma find_append_miss: "\<not> P v \<Longrightarrow> find P (cols @ [v]) = find P cols"
  by (induction cols) simp_all

lemma station_col_df_append_value: "station_col_df (cols @ [lit ''value'']) = station_col_df cols"
proof -
  have "\<not> start_and_station (lit ''value'')"
    using value_not_station by (simp add: start_and_station_def station_or_name_def)
  then show ?thesis
    by (simp add: station_col_df_find find_append_miss value_not_station split: option.splits)
qed

lemma station_col_df_with_value:
  "station_col_df (columns (with_value df)) = station_col_df (columns df)"
  by (simp add: with_value_def setitem_def station_col_df_append_value)

lemma columns_query_season: "columns (query_season df season_filter) = columns df"
  by (simp add: query_season_def)

section \<open>The aggregates and the twenty largest\<close>

lemma distinct_unique: "distinct (unique xs)"
  by (simp add: unique_def)

lemma set_unique: "set (unique xs) = set xs"
  by (simp add: unique_def)

lemma distinct_group_keys: "distinct (group_keys c df)"
  by (simp add: group_keys_def distinct_unique)

lemma set_group_keys: "set (group_keys c df) = {k \<in> set (column c df). k \<noteq> NaN}"
  by (auto simp: group_keys_def set_unique)

lemma length_filter_keys:
  "distinct ks \<Longrightarrow>
   (\<Sum>k\<leftarrow>ks. length (filter (\<lambda>r. f r = k) xs)) = length (filter (\<lambda>r. f r \<in> set ks) xs)"
proof (induction ks)
  case Nil
  then show ?case by simp
next
  case (Cons k ks)
  have "length (filter (\<lambda>r. f r = k \<or> f r \<in> set ks) xs) =
        length (filter (\<lambda>r. f r = k) xs) + length (filter (\<lambda>r. f r \<in> set ks) xs)"
    using Cons.prems by (induction xs) auto
  with Cons show ?case by simp
qed

lemma real_sum_list: "real (\<Sum>k\<leftarrow>ks. g k) = (\<Sum>k\<leftarrow>ks. real (g k))"
  by (induction ks) simp_all

lemma rows_with_value: "rows (with_value df1) = map (\<lambda>r. r(lit ''value'' := Num 1)) (rows df1)"
  by (simp add: with_value_def setitem_def)

lemma columns_with_value:
  "columns (with_value df1) =
     (if lit ''value'' \<in> set (columns df1) then columns df1 else columns df1 @ [lit ''value''])"
  by (simp add: with_value_def setitem_def)

lemma sum_cells_ones:
  "sum_cells (map (\<lambda>r. r (lit ''value'')) (filter P (map (\<lambda>r. r(lit ''value'' := Num 1)) xs))) =
   Num (real (length (filter P (map (\<lambda>r. r(lit ''value'' := Num 1)) xs))))"
proof -
  have ones: "sum_list (map (\<lambda>r. num_of (r (lit ''value''))) ys) = real (length ys)"
    if "\<forall>r\<in>set ys. r (lit ''value'') = Num 1" for ys :: "row list"
    using that by (induction ys) (auto simp: num_of_def)
  have "\<forall>r\<in>set (filter P (map (\<lambda>r. r(lit ''value'' := Num 1)) xs)). r (lit ''value'') = Num 1"
    by auto
  from ones [OF this] show ?thesis
    unfolding sum_cells_def map_map comp_def by simp
qed

lemma rows_df_groupby_bar:
  "rows (df_groupby_bar c (with_value df1)) =
     map (\<lambda>k. (\<lambda>_. NaN)(c := k, lit ''value'' :=
            Num (real (length (filter (\<lambda>r. r c = k) (rows (with_value df1)))))))
         (group_keys c (with_value df1))"
  by (simp add: df_groupby_bar_def groupby_sum_def column_def rows_with_value sum_cells_ones)

lemma counts_df_groupby_bar:
  "map num_of (column (lit ''value'') (df_groupby_bar c (with_value df1))) =
     map (\<lambda>k. real (length (filter (\<lambda>r. r c = k) (rows (with_value df1)))))
         (group_keys c (with_value df1))"
  by (simp add: column_def rows_df_groupby_bar comp_def num_of_def)

lemma sum_counts_df_groupby_bar:
  "sum_list (map num_of (column (lit ''value'') (df_groupby_bar c (with_value df1)))) =
     real (length (filter (\<lambda>r. r c \<noteq> NaN) (rows (with_value df1))))"
proof -
  let ?rows = "rows (with_value df1)" and ?ks = "group_keys c (with_value df1)"
  have "sum_list (map num_of (column (lit ''value'') (df_groupby_bar c (with_value df1)))) =
        real (\<Sum>k\<leftarrow>?ks. length (filter (\<lambda>r. r c = k) ?rows))"
    by (simp add: counts_df_groupby_bar real_sum_list comp_def)
  also have "\<dots> = real (length (filter (\<lambda>r. r c \<in> set ?ks) ?rows))"
    by (simp add: length_filter_keys distinct_group_keys)
  also have "filter (\<lambda>r. r c \<in> set ?ks) ?rows = filter (\<lambda>r. r c \<noteq> NaN) ?rows"
    by (rule filter_cong) (auto simp: set_group_keys column_def)
  finally show ?thesis .
qed

lemma matching_rows_with_value:
  assumes "c \<noteq> lit ''value''"
  shows "length (filter (\<lambda>r. r c \<noteq> NaN) (rows (with_value df1))) =
         length (filter (\<lambda>r. r c \<noteq> NaN) (rows df1))"
  using assms by (simp add: rows_with_value filter_map comp_def)

lemma obj_bound: "vars s x = Some a \<Longrightarrow> a < length (heap s) \<Longrightarrow> obj s x = heap s ! a"
  by (simp add: obj_def)

lemma setitem_value_in_place:
  assumes "vars s ''df1'' = Some a" and "a < length (heap s)"
  shows "setitem_in_place ''df1'' (lit ''value'') (\<lambda>_. Num 1) s =
         s\<lparr>heap := (heap s)[a := with_value (heap s ! a)], writes := writes s @ [a]\<rparr>"
  using assms by (simp add: setitem_in_place_def with_value_def)

lemma compute_top20_found:
  assumes "vars s ''df1'' = Some a" and "a < length (heap s)"
    and "station_col_df (columns (with_value (heap s ! a))) = Some c"
  shows "compute_top20 s = (Some c, after_compute c a s)"
  using assms
  by (simp add: compute_top20_def setitem_value_in_place obj_def assign_def alloc_def Let_def
      after_compute_def df_groupby_bar_def top20_local_def nth_append)

lemma compute_top20_missing:
  assumes "vars s ''df1'' = Some a" and "a < length (heap s)"
    and "station_col_df (columns (with_value (heap s ! a))) = None"
  shows "compute_top20 s =
         (None, s\<lparr>heap := (heap s)[a := with_value (heap s ! a)], writes := writes s @ [a],
                  rendered := rendered s @ [ErrorMsg no_station_msg], status := Stopped\<rparr>)"
  using assms
  by (simp add: compute_top20_def setitem_value_in_place obj_def halt_def render_def Let_def)

lemma obj_after_compute_top20:
  "obj (after_compute c a s) ''top20_local'' = top20_local c (with_value (heap s ! a))"
  by (simp add: obj_def after_compute_def nth_append)

lemma obj_after_compute_groupby:
  "obj (after_compute c a s) ''df_groupby_bar'' = df_groupby_bar c (with_value (heap s ! a))"
  by (simp add: obj_def after_compute_def nth_append)

lemma columns_top20_local: "columns (top20_local c d) = [c, lit ''value'']"
  by (simp add: top20_local_def nlargest_def df_groupby_bar_def groupby_sum_def)

lemma value_df_groupby_bar:
  "r \<in> set (rows (df_groupby_bar c d)) \<Longrightarrow> r (lit ''value'') \<noteq> NaN"
  by (auto simp: df_groupby_bar_def groupby_sum_def sum_cells_def)

lemma rows_top20_local:
  "rows (top20_local c d) =
     take 20 (sort_key (\<lambda>r. - num_of (r (lit ''value''))) (rows (df_groupby_bar c d)))"
proof -
  have "filter (\<lambda>r. r (lit ''value'') \<noteq> NaN) (rows (df_groupby_bar c d)) = rows (df_groupby_bar c d)"
    and "filter (\<lambda>r. r (lit ''value'') = NaN) (rows (df_groupby_bar c d)) = []"
    using value_df_groupby_bar [of _ c d] by (auto simp: filter_empty_conv)
  then show ?thesis by (simp add: top20_local_def nlargest_def)
qed

lemma length_top20_local: "length (rows (top20_local c d)) \<le> 20"
  by (simp add: rows_top20_local)

lemma sorted_top20_local:
  "sorted_wrt (\<lambda>x y. y \<le> x) (map num_of (column (lit ''value'') (top20_local c d)))"
proof -
  let ?key = "\<lambda>r. - num_of (r (lit ''value''))"
  have "sorted (map ?key (sort_key ?key (rows (df_groupby_bar c d))))"
    by (rule sorted_sort_key)
  then have "sorted_wrt (\<lambda>r r'. num_of (r' (lit ''value'')) \<le> num_of (r (lit ''value'')))
               (sort_key ?key (rows (df_groupby_bar c d)))"
    by (simp add: sorted_wrt_map)
  then have "sorted_wrt (\<lambda>r r'. num_of (r' (lit ''value'')) \<le> num_of (r (lit ''value'')))
               (rows (top20_local c d))"
    unfolding rows_top20_local by (rule sorted_wrt_take)
  then show ?thesis by (simp add: column_def sorted_wrt_map)
qed

lemma set_rows_top20_local: "set (rows (top20_local c d)) \<subseteq> set (rows (df_groupby_bar c d))"
  unfolding rows_top20_local using set_take_subset [of 20] by fastforce

section \<open>Evaluating the examples\<close>

lemmas eval_defs = pairs_def top20_local_def nlargest_def df_groupby_bar_def groupby_sum_def
  with_value_def setitem_def query_season_def example_trips_def missing_station_trips_def
  no_station_trips_def frame_def lit_def group_keys_def unique_def column_def cell_key_def
  sum_cells_def num_of_def station_col_df_def station_candidates_def is_empty_def getitem_def
  count_def

lemmas session_defs = obj_def assign_def alloc_def render_def halt_def setitem_in_place_def
  start_def banner_def load_top20_def

lemma stage_input_df1:
  "vars (stage_input df1) ''df1'' = Some 0" "0 < length (heap (stage_input df1))"
  "heap (stage_input df1) ! 0 = df1" "status (stage_input df1) = Normal"
  "rendered (stage_input df1) = []" "length (heap (stage_input df1)) = 1"
  "vars (stage_input df1) ''top20_local'' = None"
  by (simp_all add: stage_input_def assign_def start_def)

lemma example_columns:
  "columns example_trips = [lit ''season'', lit ''start_station_name'', lit ''bike_rides_daily'']"
  "columns missing_station_trips = [lit ''season'', lit ''name'']"
  "columns no_station_trips = [lit ''season'', lit ''origin'', lit ''bike_rides_daily'']"
  by (simp_all add: example_trips_def missing_station_trips_def no_station_trips_def frame_def)

lemma station_words:
  "start_and_station (lit ''start_station_name'')" "station_or_name (lit ''name'')"
  "\<not> start_and_station (lit ''season'')" "\<not> start_and_station (lit ''name'')"
  "\<not> start_and_station (lit ''value'')"
  "\<not> station_or_name (lit ''season'')" "\<not> station_or_name (lit ''origin'')"
  "\<not> station_or_name (lit ''value'')" "\<not> start_and_station (lit ''bike_rides_daily'')"
  "\<not> station_or_name (lit ''bike_rides_daily'')" "\<not> start_and_station (lit ''origin'')"
  by (simp_all add: start_and_station_def station_or_name_def lit_def)

lemma example_top20:
  "pairs (lit ''start_station_name'')
     (top20_local (lit ''start_station_name'')
        (with_value (query_season example_trips [Str (lit ''Summer'')]))) =
   [(Str (lit ''B''), Num 3), (Str (lit ''A''), Num 2), (Str (lit ''C''), Num 1)]"
  by (simp add: eval_defs)

lemma example_station_col:
  "station_col_df (columns example_trips) = Some (lit ''start_station_name'')"
  "station_col_df (columns missing_station_trips) = Some (lit ''name'')"
  "station_col_df (columns no_station_trips) = None"
  by (simp_all add: example_columns station_col_df_find station_words)

section \<open>Running the page\<close>

lemma obj_render: "obj (render w s) x = obj s x"
  by (simp add: obj_def render_def split: option.splits)

lemma obj_assign: "obj (assign x d s) x = d"
  by (simp add: obj_def assign_def)


lemma with_df1_fields:
  "heap (with_df1 season_filter a s) =
     heap s @ [query_season (heap s ! a) season_filter, query_season (heap s ! a) season_filter]"
  "vars (with_df1 season_filter a s) = (vars s)(''df1'' \<mapsto> length (heap s) + 1)"
  "writes (with_df1 season_filter a s) = writes s"
  "status (with_df1 season_filter a s) = status s"
  "rendered (with_df1 season_filter a s) =
     rendered s @ [Multiselect (unique (column (lit ''season'') (heap s ! a)))
                               (unique (column (lit ''season'') (heap s ! a)))]"
  by (simp_all add: with_df1_def assign_def alloc_def render_def)

lemma most_popular_stations_unfold:
  assumes "vars s ''df'' = Some a" and "a < length (heap s)"
    and "lit ''season'' \<in> set (columns (heap s ! a))"
  shows "most_popular_stations L season_filter s =
     (if is_empty (query_season (heap s ! a) season_filter)
      then render (ErrorMsg no_data_msg) (with_df1 season_filter a s)
      else (case getitem (query_season (heap s ! a) season_filter) (lit ''bike_rides_daily'') of
              Inl e \<Rightarrow> halt (Raised e) (with_df1 season_filter a s)
            | Inr rides \<Rightarrow>
                aggregation_stage L (render (Metric (count rides)) (with_df1 season_filter a s))))"
proof -
  have df: "obj s ''df'' = heap s ! a"
    using assms by (simp add: obj_bound)
  have season: "getitem (heap s ! a) (lit ''season'') = Inr (column (lit ''season'') (heap s ! a))"
    using assms by (simp add: getitem_def)
  show ?thesis
    unfolding most_popular_stations_def df season Let_def obj_render with_df1_def obj_assign
    by simp
qed

lemma most_popular_stations_no_season:
  assumes "vars s ''df'' = Some a" and "a < length (heap s)"
    and "lit ''season'' \<notin> set (columns (heap s ! a))"
  shows "most_popular_stations L season_filter s = halt (Raised (KeyError (lit ''season''))) s"
  using assms by (simp add: most_popular_stations_def getitem_def obj_def)

lemma is_empty_query_season:
  "lit ''season'' \<in> set (columns df) \<Longrightarrow>
   is_empty (query_season df season_filter) \<longleftrightarrow> rows (query_season df season_filter) = []"
  by (auto simp: is_empty_def query_season_def)



lemma loaded_df:
  "vars (load_top20 outcome (assign ''df'' table banner)) ''df'' = Some 0 \<and>
   0 < length (heap (load_top20 outcome (assign ''df'' table banner))) \<and>
   heap (load_top20 outcome (assign ''df'' table banner)) ! 0 = table \<and>
   writes (load_top20 outcome (assign ''df'' table banner)) = [] \<and>
   status (load_top20 outcome (assign ''df'' table banner)) = Normal \<and>
   rendered (load_top20 outcome (assign ''df'' table banner)) =
     [PageConfig, Title, SidebarTitle, Selectbox] \<and>
   vars (load_top20 outcome (assign ''df'' table banner)) ''df1'' = None \<and>
   vars (load_top20 outcome (assign ''df'' table banner)) ''df_groupby_bar'' = None \<and>
   vars (load_top20 outcome (assign ''df'' table banner)) ''top20_local'' = None"
  by (cases outcome) (simp_all add: session_defs)

lemma script_most_popular:
  assumes "primary_csv E = Inr df" and "page_choice E = ''Most popular stations''"
  shows "script E = most_popular_stations (pandas E) (season_choice E)
                      (load_top20 (top20_file E) (assign ''df'' df banner))"
  using assms by (simp add: script_def dispatch_def)

lemma plot_top20_fields:
  assumes "vars s ''top20_local'' = Some t" and "t < length (heap s)"
  shows "writes (plot_top20 L c s) = writes s @ [t, t]"
    and "length (heap (plot_top20 L c s)) = length (heap s)"
    and "status (plot_top20 L c s) = status s"
    and "vars (plot_top20 L c s) = vars s"
    and "rendered (plot_top20 L c s) =
           rendered s @
           [BarChart (map (\<lambda>r. Str (shorten (astype_str L (r c)) 28)) (rows (heap s ! t)))
                     (map (\<lambda>r. to_numeric_fillna0 L (r (lit ''value''))) (rows (heap s ! t))),
            Markdown, Markdown]"
  using assms
  by (simp_all add: plot_top20_def Let_def setitem_in_place_def render_def obj_def setitem_def
      column_def comp_def lit_def)

lemma after_compute_fields:
  "writes (after_compute c b s) = writes s @ [b]"
  "length (heap (after_compute c b s)) = length (heap s) + 3"
  "status (after_compute c b s) = status s"
  "rendered (after_compute c b s) = rendered s"
  "vars (after_compute c b s) ''top20_local'' = Some (length (heap s) + 2)"
  "heap (after_compute c b s) ! (length (heap s) + 2) = top20_local c (with_value (heap s ! b))"
  by (simp_all add: after_compute_def nth_append)

lemma aggregation_stage_found:
  assumes "vars s ''df1'' = Some b" and "b < length (heap s)"
    and "station_col_df (columns (with_value (heap s ! b))) = Some c"
  shows "writes (aggregation_stage L s) = writes s @ [b, length (heap s) + 2, length (heap s) + 2]"
    and "length (heap (aggregation_stage L s)) = length (heap s) + 3"
    and "status (aggregation_stage L s) = status s"
    and "rendered (aggregation_stage L s) =
           rendered s @
           [BarChart (map (\<lambda>r. Str (shorten (astype_str L (r c)) 28))
                        (rows (top20_local c (with_value (heap s ! b)))))
                     (map (\<lambda>r. to_numeric_fillna0 L (r (lit ''value'')))
                        (rows (top20_local c (with_value (heap s ! b))))),
            Markdown, Markdown]"
proof -
  have stage: "aggregation_stage L s = plot_top20 L c (after_compute c b s)"
    using assms by (simp add: aggregation_stage_def compute_top20_found)
  have top: "vars (after_compute c b s) ''top20_local'' = Some (length (heap s) + 2)"
    "length (heap s) + 2 < length (heap (after_compute c b s))"
    by (simp_all add: after_compute_fields)
  note plot = plot_top20_fields [OF top, of L c]
  show "writes (aggregation_stage L s) = writes s @ [b, length (heap s) + 2, length (heap s) + 2]"
    and "length (heap (aggregation_stage L s)) = length (heap s) + 3"
    and "status (aggregation_stage L s) = status s"
    and "rendered (aggregation_stage L s) =
           rendered s @
           [BarChart (map (\<lambda>r. Str (shorten (astype_str L (r c)) 28))
                        (rows (top20_local c (with_value (heap s ! b)))))
                     (map (\<lambda>r. to_numeric_fillna0 L (r (lit ''value'')))
                        (rows (top20_local c (with_value (heap s ! b))))),
            Markdown, Markdown]"
    unfolding stage plot by (simp_all add: after_compute_def nth_append)
qed

text \<open>
  The page end to end, when the filtered table is not empty and has the columns the page
  reads: the bars of the chart are the twenty largest aggregates, labelled with the
  shortened station names.
\<close>

lemma value_top20_local:
  assumes "r \<in> set (rows (top20_local c d))"
  shows "to_numeric_fillna0 L (r (lit ''value'')) = r (lit ''value'')"
proof -
  from assms have "r \<in> set (rows (df_groupby_bar c d))"
    using set_rows_top20_local by blast
  then obtain x where "r (lit ''value'') = Num x"
    by (auto simp: df_groupby_bar_def groupby_sum_def sum_cells_def)
  then show ?thesis by (simp add: to_numeric_fillna0_def)
qed

lemma script_renders_top20:
  assumes "primary_csv E = Inr df" and "page_choice E = ''Most popular stations''"
    and "lit ''season'' \<in> set (columns df)"
    and "rows (query_season df (season_choice E)) \<noteq> []"
    and "lit ''bike_rides_daily'' \<in> set (columns df)"
    and "station_col_df (columns df) = Some c"
    and "top20 = top20_local c (with_value (query_season df (season_choice E)))"
    and "n = length (heap (load_top20 (top20_file E) (assign ''df'' df banner)))"
  shows "status (script E) = Normal \<and>
         rendered (script E) =
           [PageConfig, Title, SidebarTitle, Selectbox,
            Multiselect (unique (column (lit ''season'') df)) (unique (column (lit ''season'') df)),
            Metric (count (column (lit ''bike_rides_daily'') (query_season df (season_choice E)))),
            BarChart (map (\<lambda>r. Str (shorten (astype_str (pandas E) (r c)) 28)) (rows top20))
                     (column (lit ''value'') top20),
            Markdown, Markdown] \<and>
         writes (script E) = [n + 1, n + 4, n + 4]"
proof -
  let ?s = "load_top20 (top20_file E) (assign ''df'' df banner)"
  let ?df1 = "query_season df (season_choice E)"
  let ?in = "render (Metric (count (column (lit ''bike_rides_daily'') ?df1)))
               (with_df1 (season_choice E) 0 ?s)"
  note loaded = loaded_df [of "top20_file E" df]
  from loaded have df: "vars ?s ''df'' = Some 0" "0 < length (heap ?s)" "heap ?s ! 0 = df"
    by simp_all
  have "\<not> is_empty ?df1"
    using assms(3,4) by (auto simp: is_empty_def query_season_def)
  moreover have "getitem ?df1 (lit ''bike_rides_daily'') = Inr (column (lit ''bike_rides_daily'') ?df1)"
    using assms by (simp add: getitem_def query_season_def)
  ultimately have run: "script E = aggregation_stage (pandas E) ?in"
    using assms df most_popular_stations_unfold [of ?s 0 "pandas E" "season_choice E"]
    by (simp add: script_most_popular)
  have df1: "vars ?in ''df1'' = Some (Suc n)" "Suc n < length (heap ?in)"
    "heap ?in ! Suc n = ?df1"
    using assms(8) df by (simp_all add: render_def with_df1_fields nth_append)
  have found: "station_col_df (columns (with_value (heap ?in ! Suc n))) = Some c"
    unfolding df1(3) station_col_df_with_value columns_query_season by (rule assms(6))
  note stage = aggregation_stage_found [OF df1(1,2) found, of "pandas E"]
  have bars: "map (\<lambda>r. to_numeric_fillna0 (pandas E) (r (lit ''value''))) (rows top20) =
      column (lit ''value'') top20"
    unfolding column_def assms(7) by (rule map_cong) (simp_all add: value_top20_local)
  have len: "length (heap ?in) = n + 2"
    using assms(8) by (simp add: render_def with_df1_fields)
  show ?thesis
    unfolding run stage df1(3) len
    using loaded bars assms(7)
    by (simp add: render_def with_df1_fields)
qed

lemma script_renders_top20_example:
  "status (script example_env) = Normal \<and>
   rendered (script example_env) =
     [PageConfig, Title, SidebarTitle, Selectbox,
      Multiselect [Str (lit ''Summer''), Str (lit ''Winter'')]
                  [Str (lit ''Summer''), Str (lit ''Winter'')],
      Metric 6,
      BarChart [Str (lit ''B''), Str (lit ''A''), Str (lit ''C'')] [Num 3, Num 2, Num 1],
      Markdown, Markdown]"
proof -
  have "primary_csv example_env = Inr example_trips"
    and "page_choice example_env = ''Most popular stations''"
    and "lit ''season'' \<in> set (columns example_trips)"
    and "rows (query_season example_trips (season_choice example_env)) \<noteq> []"
    and "lit ''bike_rides_daily'' \<in> set (columns example_trips)"
    and "station_col_df (columns example_trips) = Some (lit ''start_station_name'')"
    by (simp_all add: example_env_def example_station_col)
       (simp_all add: example_trips_def frame_def query_season_def lit_def)
  from script_renders_top20 [OF this refl refl]
  have "status (script example_env) = Normal"
    and "rendered (script example_env) =
           [PageConfig, Title, SidebarTitle, Selectbox,
            Multiselect (unique (column (lit ''season'') example_trips))
                        (unique (column (lit ''season'') example_trips)),
            Metric (count (column (lit ''bike_rides_daily'')
                      (query_season example_trips [Str (lit ''Summer'')]))),
            BarChart (map (\<lambda>r. Str (shorten (astype_str example_lib (r (lit ''start_station_name''))) 28))
                        (rows (top20_local (lit ''start_station_name'')
                           (with_value (query_season example_trips [Str (lit ''Summer'')])))))
                     (column (lit ''value'') (top20_local (lit ''start_station_name'')
                           (with_value (query_season example_trips [Str (lit ''Summer'')])))),
            Markdown, Markdown]"
    by (simp_all add: example_env_def)
  moreover have "unique (column (lit ''season'') example_trips) =
      [Str (lit ''Summer''), Str (lit ''Winter'')]"
    and "count (column (lit ''bike_rides_daily'')
           (query_season example_trips [Str (lit ''Summer'')])) = 6"
    by (simp_all add: eval_defs)
  moreover have "map (\<lambda>r. Str (shorten (astype_str example_lib (r (lit ''start_station_name''))) 28))
        (rows (top20_local (lit ''start_station_name'')
           (with_value (query_season example_trips [Str (lit ''Summer'')])))) =
      map (\<lambda>p. Str (shorten (astype_str example_lib (fst p)) 28))
        (pairs (lit ''start_station_name'') (top20_local (lit ''start_station_name'')
           (with_value (query_season example_trips [Str (lit ''Summer'')]))))"
    and "column (lit ''value'') (top20_local (lit ''start_station_name'')
           (with_value (query_season example_trips [Str (lit ''Summer'')]))) =
      map snd (pairs (lit ''start_station_name'') (top20_local (lit ''start_station_name'')
           (with_value (query_season example_trips [Str (lit ''Summer'')]))))"
    by (simp_all add: pairs_def column_def comp_def)
  ultimately show ?thesis
    unfolding example_top20 by (simp add: astype_str_def shorten_def lit_def)
qed

lemma script_no_station_column:
  assumes "primary_csv E = Inr df" and "page_choice E = ''Most popular stations''"
    and "lit ''season'' \<in> set (columns df)"
    and "rows (query_season df (season_choice E)) \<noteq> []"
    and "lit ''bike_rides_daily'' \<in> set (columns df)"
    and "station_col_df (columns df) = None"
  shows "status (script E) = Stopped \<and>
         rendered (script E) =
           [PageConfig, Title, SidebarTitle, Selectbox,
            Multiselect (unique (column (lit ''season'') df)) (unique (column (lit ''season'') df)),
            Metric (count (column (lit ''bike_rides_daily'') (query_season df (season_choice E)))),
            ErrorMsg no_station_msg] \<and>
         vars (script E) ''df_groupby_bar'' = None \<and>
         vars (script E) ''top20_local'' = None"
proof -
  let ?s = "load_top20 (top20_file E) (assign ''df'' df banner)"
  let ?df1 = "query_season df (season_choice E)"
  let ?in = "render (Metric (count (column (lit ''bike_rides_daily'') ?df1)))
               (with_df1 (season_choice E) 0 ?s)"
  note loaded = loaded_df [of "top20_file E" df]
  from loaded have df: "vars ?s ''df'' = Some 0" "0 < length (heap ?s)" "heap ?s ! 0 = df"
    by simp_all
  have "\<not> is_empty ?df1"
    using assms(3,4) by (auto simp: is_empty_def query_season_def)
  moreover have "getitem ?df1 (lit ''bike_rides_daily'') = Inr (column (lit ''bike_rides_daily'') ?df1)"
    using assms by (simp add: getitem_def query_season_def)
  ultimately have run: "script E = aggregation_stage (pandas E) ?in"
    using assms df most_popular_stations_unfold [of ?s 0 "pandas E" "season_choice E"]
    by (simp add: script_most_popular)
  have df1: "vars ?in ''df1'' = Some (Suc (length (heap ?s)))"
    "Suc (length (heap ?s)) < length (heap ?in)"
    "heap ?in ! Suc (length (heap ?s)) = ?df1"
    using df by (simp_all add: render_def with_df1_fields nth_append)
  have missing: "station_col_df (columns (with_value (heap ?in ! Suc (length (heap ?s))))) = None"
    unfolding df1(3) station_col_df_with_value columns_query_season by (rule assms(6))
  show ?thesis
    unfolding run aggregation_stage_def compute_top20_missing [OF df1(1,2) missing]
    using loaded by (simp add: render_def with_df1_fields)
qed

section \<open>The aggregation stage\<close>

subsection \<open>C5: the station column, or a configuration error\<close>

text \<open>
  C5: for every table \<open>df1\<close> the stage is run on, \<open>cols\<close> being its header: if a
  column name contains both \<open>start\<close> and \<open>station\<close>, the stage selects
  such a column; if none does but one contains \<open>station\<close> or \<open>name\<close>, it selects such
  a column; and if no column does, it selects none, reports the missing station column
  and stops the page, with no chart drawn and no table of aggregates built.
\<close>

theorem station_column_or_configuration_error:
  assumes "vars s ''df1'' = Some a" and "a < length (heap s)"
    and "cols = columns (heap s ! a)"
  shows "((\<exists>x\<in>set cols. start_and_station x) \<longrightarrow>
            (\<exists>c\<in>set cols. start_and_station c \<and> fst (compute_top20 s) = Some c)) \<and>
         (\<not> (\<exists>x\<in>set cols. start_and_station x) \<and> (\<exists>x\<in>set cols. station_or_name x) \<longrightarrow>
            (\<exists>c\<in>set cols. station_or_name c \<and> fst (compute_top20 s) = Some c)) \<and>
         (\<not> (\<exists>x\<in>set cols. station_or_name x) \<longrightarrow>
            fst (compute_top20 s) = None \<and>
            status (aggregation_stage L s) = Stopped \<and>
            rendered (aggregation_stage L s) = rendered s @ [ErrorMsg no_station_msg] \<and>
            vars (aggregation_stage L s) = vars s \<and>
            length (heap (aggregation_stage L s)) = length (heap s))"
proof -
  have found: "fst (compute_top20 s) = Some c" if "station_col_df cols = Some c" for c
  proof -
    from that have "station_col_df (columns (with_value (heap s ! a))) = Some c"
      using assms(3) by (simp add: station_col_df_with_value)
    with assms(1,2) show ?thesis by (simp add: compute_top20_found)
  qed
  have missing: "compute_top20 s =
         (None, s\<lparr>heap := (heap s)[a := with_value (heap s ! a)], writes := writes s @ [a],
                  rendered := rendered s @ [ErrorMsg no_station_msg], status := Stopped\<rparr>)"
    if "station_col_df cols = None"
  proof -
    from that have "station_col_df (columns (with_value (heap s ! a))) = None"
      using assms(3) by (simp add: station_col_df_with_value)
    with assms(1,2) show ?thesis by (simp add: compute_top20_missing)
  qed
  show ?thesis
  proof (intro conjI impI)
  assume "\<exists>x\<in>set cols. start_and_station x"
  then obtain c where c: "find start_and_station cols = Some c"
    by (cases "find start_and_station cols") (auto simp: find_None_iff)
  then have "station_col_df cols = Some c"
    by (simp add: station_col_df_find)
  then have "fst (compute_top20 s) = Some c"
    by (rule found)
  moreover from c have "c \<in> set cols \<and> start_and_station c"
    by (auto simp: find_Some_iff)
  ultimately show "\<exists>c\<in>set cols. start_and_station c \<and> fst (compute_top20 s) = Some c"
    by blast
next
  assume "\<not> (\<exists>x\<in>set cols. start_and_station x) \<and> (\<exists>x\<in>set cols. station_or_name x)"
  then have none: "find start_and_station cols = None"
    and some: "\<exists>x\<in>set cols. station_or_name x"
    by (auto simp: find_None_iff)
  from some obtain c where c: "find station_or_name cols = Some c"
    by (cases "find station_or_name cols") (auto simp: find_None_iff)
  with none have "station_col_df cols = Some c"
    by (simp add: station_col_df_find)
  then have "fst (compute_top20 s) = Some c"
    by (rule found)
  moreover from c have "c \<in> set cols \<and> station_or_name c"
    by (auto simp: find_Some_iff)
  ultimately show "\<exists>c\<in>set cols. station_or_name c \<and> fst (compute_top20 s) = Some c"
    by blast
next
  assume no: "\<not> (\<exists>x\<in>set cols. station_or_name x)"
  then have "find station_or_name cols = None" "find start_and_station cols = None"
    by (auto simp: find_None_iff start_and_station_def station_or_name_def)
  then have "station_col_df cols = None"
    by (simp add: station_col_df_find)
  from missing [OF this] show "fst (compute_top20 s) = None"
    and "status (aggregation_stage L s) = Stopped"
    and "rendered (aggregation_stage L s) = rendered s @ [ErrorMsg no_station_msg]"
    and "vars (aggregation_stage L s) = vars s"
    and "length (heap (aggregation_stage L s)) = length (heap s)"
    by (simp_all add: aggregation_stage_def)
qed
qed

theorem station_column_or_configuration_error_witness:
  "fst (compute_top20 (stage_input (query_season example_trips [Str (lit ''Summer'')]))) =
     Some (lit ''start_station_name'') \<and>
   fst (compute_top20 (stage_input (query_season missing_station_trips [Str (lit ''Summer'')]))) =
     Some (lit ''name'') \<and>
   fst (compute_top20 (stage_input (query_season no_station_trips [Str (lit ''Summer'')]))) = None \<and>
   status (aggregation_stage example_lib
            (stage_input (query_season no_station_trips [Str (lit ''Summer'')]))) = Stopped \<and>
   rendered (aggregation_stage example_lib
            (stage_input (query_season no_station_trips [Str (lit ''Summer'')]))) =
     [ErrorMsg no_station_msg]"
proof -
  let ?sel = "[Str (lit ''Summer'')]"
  note th = station_column_or_configuration_error [OF stage_input_df1(1,2)]
  have "fst (compute_top20 (stage_input (query_season example_trips ?sel))) =
          Some (lit ''start_station_name'')"
    using th [of _ "query_season example_trips ?sel" example_lib, OF refl]
    by (simp add: stage_input_df1 columns_query_season example_columns station_words)
  moreover have "fst (compute_top20 (stage_input (query_season missing_station_trips ?sel))) =
          Some (lit ''name'')"
    using th [of _ "query_season missing_station_trips ?sel" example_lib, OF refl]
    by (simp add: stage_input_df1 columns_query_season example_columns station_words)
  moreover have "fst (compute_top20 (stage_input (query_season no_station_trips ?sel))) = None \<and>
      status (aggregation_stage example_lib (stage_input (query_season no_station_trips ?sel))) =
        Stopped \<and>
      rendered (aggregation_stage example_lib (stage_input (query_season no_station_trips ?sel))) =
        [ErrorMsg no_station_msg]"
    using th [of _ "query_season no_station_trips ?sel" example_lib, OF refl]
    by (simp add: stage_input_df1 columns_query_season example_columns station_words)
  ultimately show ?thesis by simp
qed

text \<open>
  The page end to end on a table outside the input constraint: \<open>no_station_trips\<close> has
  the columns \<open>season\<close>, \<open>origin\<close> and \<open>bike_rides_daily\<close>, none of which the
  heuristic recognises, and the page reports the missing station column and stops.
\<close>

lemma script_no_station_column_example:
  "length (rows (query_season no_station_trips [Str (lit ''Summer'')])) = 1 \<and>
   status (script (example_env\<lparr>primary_csv := Inr no_station_trips\<rparr>)) = Stopped \<and>
   rendered (script (example_env\<lparr>primary_csv := Inr no_station_trips\<rparr>)) =
     [PageConfig, Title, SidebarTitle, Selectbox,
      Multiselect [Str (lit ''Summer'')] [Str (lit ''Summer'')],
      Metric 1, ErrorMsg no_station_msg] \<and>
   vars (script (example_env\<lparr>primary_csv := Inr no_station_trips\<rparr>)) ''top20_local'' = None"
proof -
  let ?E = "example_env\<lparr>primary_csv := Inr no_station_trips\<rparr>"
  have "primary_csv ?E = Inr no_station_trips"
    and "page_choice ?E = ''Most popular stations''"
    and "lit ''season'' \<in> set (columns no_station_trips)"
    and "rows (query_season no_station_trips (season_choice ?E)) \<noteq> []"
    and "lit ''bike_rides_daily'' \<in> set (columns no_station_trips)"
    and "station_col_df (columns no_station_trips) = None"
    by (simp_all add: example_env_def example_station_col)
       (simp_all add: no_station_trips_def frame_def query_season_def lit_def)
  from script_no_station_column [OF this]
  show ?thesis by (simp add: example_env_def eval_defs)
qed

subsection \<open>C1: at most twenty pairs, in descending order of count\<close>

text \<open>
  C1: for every table of trip records, that is, one in which the heuristic finds the
  station column \<open>c\<close> (the input constraint of section 4.1 of the specification; a
  table without one takes the path of C5), and every set of selected season labels,
  \<open>df1\<close> being the filtered table, the aggregation stage returns: it binds
  \<open>top20_local\<close> to a table of (station identifier, trip count) pairs that has at most
  20 rows, in descending order of trip count. This holds whether or not the filtered
  table is empty; the page runs the stage only when it is not.
\<close>

theorem top20_local_sorted:
  assumes "vars s ''df1'' = Some a" and "a < length (heap s)"
    and "heap s ! a = query_season df season_filter"
    and "station_col_df (columns df) = Some c"
  shows "\<exists>s'. compute_top20 s = (Some c, s') \<and> status s' = status s \<and>
           obj s' ''top20_local'' = top20_local c (with_value (query_season df season_filter)) \<and>
           columns (obj s' ''top20_local'') = [c, lit ''value''] \<and>
           length (rows (obj s' ''top20_local'')) \<le> 20 \<and>
           sorted_wrt (\<lambda>x y. y \<le> x) (map num_of (column (lit ''value'') (obj s' ''top20_local'')))"
proof -
  have "compute_top20 s = (Some c, after_compute c a s)"
    using assms by (simp add: compute_top20_found station_col_df_with_value columns_query_season)
  moreover have "obj (after_compute c a s) ''top20_local'' =
      top20_local c (with_value (query_season df season_filter))"
    using assms by (simp add: obj_after_compute_top20)
  moreover have "status (after_compute c a s) = status s"
    by (simp add: after_compute_def)
  ultimately show ?thesis
    by (simp add: columns_top20_local length_top20_local sorted_top20_local)
qed

theorem top20_local_sorted_witness:
  "fst (compute_top20 (stage_input (query_season example_trips [Str (lit ''Summer'')]))) =
     Some (lit ''start_station_name'') \<and>
   pairs (lit ''start_station_name'')
     (obj (snd (compute_top20 (stage_input (query_season example_trips [Str (lit ''Summer'')]))))
        ''top20_local'') =
     [(Str (lit ''B''), Num 3), (Str (lit ''A''), Num 2), (Str (lit ''C''), Num 1)] \<and>
   length (rows
     (obj (snd (compute_top20 (stage_input (query_season example_trips [Str (lit ''Summer'')]))))
        ''top20_local'')) \<le> 20"
proof -
  let ?df1 = "query_season example_trips [Str (lit ''Summer'')]"
  from top20_local_sorted [OF stage_input_df1(1,2,3) example_station_col(1)]
  obtain s' where "compute_top20 (stage_input ?df1) = (Some (lit ''start_station_name''), s')"
    and "obj s' ''top20_local'' = top20_local (lit ''start_station_name'') (with_value ?df1)"
    and "length (rows (obj s' ''top20_local'')) \<le> 20"
    by blast
  then show ?thesis by (simp add: example_top20)
qed

subsection \<open>C2: the counts add up to the matching records that have a station\<close>

text \<open>
  C2 as stated fails on a table in which a matching record has no station: \<open>groupby\<close>
  leaves such records out of every group. Of the two summer trips of
  \<open>missing_station_trips\<close> one has a missing station; both match the filter, and the
  only aggregate is station \<open>A\<close> with count 1.
\<close>

theorem groupby_counts_counterexample:
  "fst (compute_top20 (stage_input (query_season missing_station_trips [Str (lit ''Summer'')]))) =
     Some (lit ''name'') \<and>
   pairs (lit ''name'')
     (obj (snd (compute_top20
                  (stage_input (query_season missing_station_trips [Str (lit ''Summer'')]))))
        ''df_groupby_bar'') = [(Str (lit ''A''), Num 1)] \<and>
   sum_list (map num_of (column (lit ''value'')
     (obj (snd (compute_top20
                  (stage_input (query_season missing_station_trips [Str (lit ''Summer'')]))))
        ''df_groupby_bar''))) = 1 \<and>
   length (rows (query_season missing_station_trips [Str (lit ''Summer'')])) = 2"
proof -
  let ?df1 = "query_season missing_station_trips [Str (lit ''Summer'')]"
  have "compute_top20 (stage_input ?df1) = (Some (lit ''name''), after_compute (lit ''name'') 0 (stage_input ?df1))"
    by (rule compute_top20_found)
       (simp_all add: stage_input_df1 station_col_df_with_value columns_query_season
          example_station_col)
  moreover have "obj (after_compute (lit ''name'') 0 (stage_input ?df1)) ''df_groupby_bar'' =
      df_groupby_bar (lit ''name'') (with_value ?df1)"
    by (simp add: obj_after_compute_groupby stage_input_df1)
  moreover have "pairs (lit ''name'') (df_groupby_bar (lit ''name'') (with_value ?df1)) =
      [(Str (lit ''A''), Num 1)]"
    and "sum_list (map num_of (column (lit ''value'')
           (df_groupby_bar (lit ''name'') (with_value ?df1)))) = 1"
    and "length (rows ?df1) = 2"
    by (simp_all add: eval_defs)
  ultimately show ?thesis by simp
qed

text \<open>
  C2, amended: for every input table with a station column and every season filter
  selection, the sum of the counts over all station aggregates produced by the group-by
  stage (before top-20 truncation) equals the number of trip records matching the filter
  whose station is not missing; it equals the number of all matching records when none
  of them has a missing station.
\<close>

theorem groupby_counts_sum:
  assumes "vars s ''df1'' = Some a" and "a < length (heap s)"
    and "heap s ! a = query_season df season_filter"
    and "station_col_df (columns df) = Some c"
  shows "\<exists>s'. compute_top20 s = (Some c, s') \<and>
           sum_list (map num_of (column (lit ''value'') (obj s' ''df_groupby_bar''))) =
             real (length (filter (\<lambda>r. r c \<noteq> NaN) (rows (query_season df season_filter)))) \<and>
           (list_all (\<lambda>r. r c \<noteq> NaN) (rows (query_season df season_filter)) \<longrightarrow>
              sum_list (map num_of (column (lit ''value'') (obj s' ''df_groupby_bar''))) =
                real (length (rows (query_season df season_filter))))"
proof -
  let ?df1 = "query_season df season_filter"
  have "compute_top20 s = (Some c, after_compute c a s)"
    using assms by (simp add: compute_top20_found station_col_df_with_value columns_query_season)
  moreover have "obj (after_compute c a s) ''df_groupby_bar'' = df_groupby_bar c (with_value ?df1)"
    using assms by (simp add: obj_after_compute_groupby)
  moreover have "c \<noteq> lit ''value''"
    using assms(4) by (rule station_col_df_not_value)
  then have total: "sum_list (map num_of (column (lit ''value'') (df_groupby_bar c (with_value ?df1)))) =
      real (length (filter (\<lambda>r. r c \<noteq> NaN) (rows ?df1)))"
    by (simp add: sum_counts_df_groupby_bar matching_rows_with_value)
  moreover have "filter (\<lambda>r. r c \<noteq> NaN) (rows ?df1) = rows ?df1"
    if "list_all (\<lambda>r. r c \<noteq> NaN) (rows ?df1)"
    using that by (simp add: list_all_iff)
  ultimately show ?thesis by simp
qed

theorem groupby_counts_sum_witness:
  "fst (compute_top20 (stage_input (query_season example_trips [Str (lit ''Summer'')]))) =
     Some (lit ''start_station_name'') \<and>
   sum_list (map num_of (column (lit ''value'')
     (obj (snd (compute_top20 (stage_input (query_season example_trips [Str (lit ''Summer'')]))))
        ''df_groupby_bar''))) = 6 \<and>
   length (rows (query_season example_trips [Str (lit ''Summer'')])) = 6"
proof -
  let ?df1 = "query_season example_trips [Str (lit ''Summer'')]"
  have present: "list_all (\<lambda>r. r (lit ''start_station_name'') \<noteq> NaN) (rows ?df1)"
    and six: "length (rows ?df1) = 6"
    by (simp_all add: eval_defs)
  from groupby_counts_sum [OF stage_input_df1(1,2,3) example_station_col(1)] present
  obtain s' where "compute_top20 (stage_input ?df1) = (Some (lit ''start_station_name''), s')"
    and "sum_list (map num_of (column (lit ''value'') (obj s' ''df_groupby_bar''))) =
           real (length (rows ?df1))"
    by blast
  then show ?thesis by (simp add: six)
qed

section \<open>The script\<close>

subsection \<open>C7: a missing primary file\<close>

text \<open>
  C7: if the primary input file is missing, then whatever the page and the other inputs,
  the script draws the page frame and the error message and stops: it holds no table,
  binds no name, and renders nothing after the message.
\<close>

theorem missing_primary_file_is_fatal:
  assumes "primary_csv E = Inl FileNotFoundError"
  shows "script E =
         \<lparr>heap = [], vars = Map.empty, writes = [],
          rendered = [PageConfig, Title, SidebarTitle, Selectbox, ErrorMsg file_msg],
          status = Stopped\<rparr>"
  using assms by (simp add: script_def banner_def start_def render_def halt_def)

theorem missing_primary_file_is_fatal_witness:
  "script (example_env\<lparr>primary_csv := Inl FileNotFoundError\<rparr>) =
         \<lparr>heap = [], vars = Map.empty, writes = [],
          rendered = [PageConfig, Title, SidebarTitle, Selectbox, ErrorMsg file_msg],
          status = Stopped\<rparr>"
  using missing_primary_file_is_fatal [of "example_env\<lparr>primary_csv := Inl FileNotFoundError\<rparr>"]
  by simp

subsection \<open>C6: a selection that matches no row\<close>



subsection \<open>C9: the shared table is not changed\<close>

lemma kept_refl: "n \<le> length (heap s) \<Longrightarrow> kept n s s"
  by (simp add: kept_def)

lemma kept_trans: "kept n s s' \<Longrightarrow> kept n s' s'' \<Longrightarrow> kept n s s''"
  by (auto simp: kept_def)

lemma kept_render: "kept n s s' \<Longrightarrow> kept n s (render w s')"
  by (simp add: kept_def render_def)

lemma kept_halt: "kept n s s' \<Longrightarrow> kept n s (halt st s')"
  by (simp add: kept_def halt_def)

lemma kept_alloc: "kept n s s' \<Longrightarrow> kept n s (alloc d s')"
  by (auto simp: kept_def alloc_def)

lemma kept_assign: "x \<noteq> ''df'' \<Longrightarrow> kept n s s' \<Longrightarrow> kept n s (assign x d s')"
  by (auto simp: kept_def assign_def)

lemma kept_setitem_in_place:
  assumes "kept n s s'" and "vars s' x = Some b" and "n \<le> b"
  shows "kept n s (setitem_in_place x c f s')"
  using assms by (auto simp: kept_def setitem_in_place_def)

lemma vars_setitem_in_place: "vars (setitem_in_place x c f s) = vars s"
  by (simp add: setitem_in_place_def split: option.splits)

lemma kept_plot_top20:
  assumes "kept n s s'" and "vars s' ''top20_local'' = Some t" and "n \<le> t"
  shows "kept n s (plot_top20 L c s')"
  unfolding plot_top20_def Let_def
  by (intro kept_render kept_setitem_in_place [where b = t] assms)
     (simp_all add: vars_setitem_in_place assms)

lemma kept_after_compute:
  assumes "kept n s s'" and "n \<le> b" and "b < length (heap s')"
  shows "kept n s (after_compute c b s')"
  using assms by (auto simp: kept_def after_compute_def)

lemma kept_aggregation_stage:
  assumes "kept n s s'" and "vars s' ''df1'' = Some b" and "n \<le> b" and "b < length (heap s')"
  shows "kept n s (aggregation_stage L s')"
proof (cases "station_col_df (columns (with_value (heap s' ! b)))")
  case None
  have "kept n s (halt Stopped (render (ErrorMsg no_station_msg)
          (setitem_in_place ''df1'' (lit ''value'') (\<lambda>_. Num 1) s')))"
    by (intro kept_halt kept_render kept_setitem_in_place [where b = b] assms)
  moreover have "aggregation_stage L s' =
      halt Stopped (render (ErrorMsg no_station_msg)
          (setitem_in_place ''df1'' (lit ''value'') (\<lambda>_. Num 1) s'))"
    using None assms
    by (simp add: aggregation_stage_def compute_top20_missing setitem_value_in_place halt_def
        render_def)
  ultimately show ?thesis by simp
next
  case (Some c)
  have "kept n s (plot_top20 L c (after_compute c b s'))"
  proof (rule kept_plot_top20)
    show "kept n s (after_compute c b s')"
      using assms by (intro kept_after_compute)
    show "vars (after_compute c b s') ''top20_local'' = Some (length (heap s') + 2)"
      by (simp add: after_compute_def)
    show "n \<le> length (heap s') + 2"
      using assms by simp
  qed
  then show ?thesis
    using Some assms by (simp add: aggregation_stage_def compute_top20_found)
qed

lemma kept_with_df1: "kept (length (heap s)) s (with_df1 season_filter a s)"
  unfolding with_df1_def
  by (intro kept_assign kept_alloc kept_render kept_refl) simp_all

lemma kept_most_popular_stations:
  assumes "vars s ''df'' = Some a" and "a < length (heap s)"
  shows "kept (length (heap s)) s (most_popular_stations L season_filter s)"
proof (cases "lit ''season'' \<in> set (columns (heap s ! a))")
  case False
  with assms show ?thesis
    by (simp add: most_popular_stations_no_season kept_halt kept_refl)
next
  case True
  let ?s = "with_df1 season_filter a s"
  have stage: "kept (length (heap s)) s (aggregation_stage L (render w ?s))" for w
  proof (rule kept_aggregation_stage)
    show "kept (length (heap s)) s (render w ?s)"
      by (intro kept_render kept_with_df1)
    show "vars (render w ?s) ''df1'' = Some (length (heap s) + 1)"
      by (simp add: render_def with_df1_fields)
    show "length (heap s) + 1 < length (heap (render w ?s))"
      by (simp add: render_def with_df1_fields)
  qed simp
  show ?thesis
    unfolding most_popular_stations_unfold [OF assms True]
    by (auto split: sum.splits intro: kept_render kept_halt kept_with_df1 stage)
qed

text \<open>
  C9: for every season selection and every session in which \<open>df\<close> names a table, after
  the page of the most popular stations has run, that table is the same as before, the
  name \<open>df\<close> still refers to it, and every table changed in place (by adding the count
  indicator, the tick labels and the numeric values) is one the page created itself: the
  filtered copy or a table derived from it.
\<close>

theorem source_table_untouched:
  assumes "vars s ''df'' = Some a" and "a < length (heap s)"
  shows "heap (most_popular_stations L season_filter s) ! a = heap s ! a \<and>
         vars (most_popular_stations L season_filter s) ''df'' = Some a \<and>
         obj (most_popular_stations L season_filter s) ''df'' = obj s ''df'' \<and>
         (\<exists>ws. writes (most_popular_stations L season_filter s) = writes s @ ws \<and>
               list_all (\<lambda>w. length (heap s) \<le> w) ws)"
proof -
  let ?s' = "most_popular_stations L season_filter s"
  have kept: "kept (length (heap s)) s ?s'"
    using assms by (rule kept_most_popular_stations)
  then have "take (length (heap s)) (heap ?s') ! a = take (length (heap s)) (heap s) ! a"
    by (simp add: kept_def)
  then have same: "heap ?s' ! a = heap s ! a"
    using assms by simp
  moreover have bound: "vars ?s' ''df'' = Some a" "a < length (heap ?s')"
    using kept assms by (simp_all add: kept_def)
  moreover have "obj ?s' ''df'' = obj s ''df''"
    using bound same assms by (simp add: obj_bound)
  ultimately show ?thesis using kept by (simp add: kept_def)
qed

theorem source_table_untouched_witness:
  "obj (script example_env) ''df'' = example_trips \<and>
   vars (script example_env) ''df'' = Some 0 \<and>
   writes (script example_env) = [2, 5, 5]"
proof -
  let ?s = "load_top20 (top20_file example_env) (assign ''df'' example_trips banner)"
  have run: "script example_env = most_popular_stations example_lib [Str (lit ''Summer'')] ?s"
    using script_most_popular [of example_env example_trips]
    by (simp add: example_env_def)
  have start: "vars ?s ''df'' = Some 0" "0 < length (heap ?s)" "obj ?s ''df'' = example_trips"
    and one: "length (heap ?s) = 1"
    by (simp_all add: session_defs example_env_def)
  have "obj (script example_env) ''df'' = example_trips \<and> vars (script example_env) ''df'' = Some 0"
    using source_table_untouched [OF start(1,2), of example_lib "[Str (lit ''Summer'')]"]
    by (simp add: run start)
  moreover have "writes (script example_env) = [2, 5, 5]"
  proof -
    have "primary_csv example_env = Inr example_trips"
      and "page_choice example_env = ''Most popular stations''"
      and "lit ''season'' \<in> set (columns example_trips)"
      and "rows (query_season example_trips (season_choice example_env)) \<noteq> []"
      and "lit ''bike_rides_daily'' \<in> set (columns example_trips)"
      and "station_col_df (columns example_trips) = Some (lit ''start_station_name'')"
      by (simp_all add: example_env_def example_station_col)
         (simp_all add: example_trips_def frame_def query_season_def lit_def)
    from script_renders_top20 [OF this refl refl] show ?thesis
      using one by simp
  qed
  ultimately show ?thesis by simp
qed

end
